theory Spec2Isabelle
  imports Main "HOL-Library.Sublist"
begin

section \<open>Python values used by the program\<close>

text \<open>
  A Python \<open>str\<close> is represented by its UTF-8 encoding, one \<open>char\<close> per byte, so that
  \<open>bytes(message, "utf8")\<close> is the identity on the representation and the non-ASCII
  text of the page appears as explicit bytes. \<open>str(n)\<close> of an integer (what an f-string
  field \<open>{port}\<close> inserts) is the decimal numeral with a leading minus sign for
  negative values.
\<close>

definition digit_char :: "nat \<Rightarrow> char" where
  "digit_char d = ''0123456789'' ! d"

fun digits :: "nat \<Rightarrow> string" where
  "digits n = (if n < 10 then [digit_char n] else digits (n div 10) @ [digit_char (n mod 10)])"

declare digits.simps [simp del]

definition str_int :: "int \<Rightarrow> string" where
  "str_int i = (if i < 0 then CHR ''-'' # digits (nat (- i)) else digits (nat i))"

text \<open>
  The exceptions the program can meet: \<open>socket.gaierror\<close> from name resolution;
  \<open>OverflowError\<close> from \<open>bind\<close> on a port outside \<open>0..65535\<close>; \<open>OSError\<close> (address in
  use) and \<open>PermissionError\<close> from \<open>bind\<close>; \<open>FileNotFoundError\<close>, \<open>PermissionError\<close> and
  \<open>ssl.SSLError\<close> from loading the certificate and the key; \<open>ConnectionResetError\<close>
  from a peer; \<open>KeyboardInterrupt\<close> from the interrupt signal.
\<close>

datatype pyexn =
    gaierror
  | OverflowError
  | OSError_address_in_use
  | PermissionError
  | FileNotFoundError
  | SSLError
  | ConnectionResetError
  | KeyboardInterrupt

type_synonym 'a result = "pyexn + 'a"

section \<open>The world outside the program\<close>

text \<open>
  The world outside the program, as the program finds it at one moment:
  the answers of \<open>socket.gethostname()\<close> and \<open>socket.gethostbyname(name)\<close> (\<open>None\<close>: the
  call raises \<open>socket.gaierror\<close>); the two strings the framework puts into the \<open>Server\<close>
  and \<open>Date\<close> headers; what the operating system answers to \<open>bind\<close> on a port in
  \<open>0..65535\<close>; the PEM file found at a path (\<open>Pem k\<close>: well-formed material of key pair
  \<open>k\<close>); and the interpreter's limit on the digits of an integer string
  (\<open>sys.get_int_max_str_digits()\<close>, \<open>0\<close> for no limit).

  Two parts of the standard library that the program inherits but never overrides are
  taken as given as well: the HTML document \<open>send_error\<close> formats for a status code and
  a request line, and, for the inherited \<open>do_HEAD\<close> of \<open>SimpleHTTPRequestHandler\<close>, the
  status code and headers it answers for a path, which depend on the files of the
  working directory.
\<close>

datatype pem = Missing | Unreadable | Malformed | Pem nat

datatype bind_answer = Bound | Address_in_use | Permission_denied

record os =
  gethostname :: string
  gethostbyname :: "string \<Rightarrow> string option"
  version_string :: string
  date_time_string :: string
  bind_answer :: "int \<Rightarrow> bind_answer"
  files :: "string \<Rightarrow> pem"
  int_max_str_digits :: nat
  error_message :: "nat \<Rightarrow> string \<Rightarrow> string"
  head_response :: "string \<Rightarrow> nat \<times> (string \<times> string) list"

section \<open>Command line\<close>

subsection \<open>\<open>int(s)\<close>\<close>

text \<open>
  \<open>type=int\<close> converts the positional argument with \<open>int(s)\<close>, base ten: blanks are
  skipped at both ends, then an optional sign, then digits, where single underscores may
  separate digits; more digits than the interpreter's limit raise \<open>ValueError\<close>.
  Command-line strings are taken to be ASCII: a byte outside ASCII counts as an ordinary
  character.
\<close>

definition is_space :: "char \<Rightarrow> bool" where
  "is_space c = (c \<in> set [CHR 0x09, CHR 0x0A, CHR 0x0B, CHR 0x0C, CHR 0x0D, CHR 0x20])"

definition is_digit :: "char \<Rightarrow> bool" where
  "is_digit c = (c \<in> set ''0123456789'')"

definition digit_value :: "char \<Rightarrow> nat" where
  "digit_value c = of_char c - 48"

definition strip :: "string \<Rightarrow> string" where
  "strip s = rev (dropWhile is_space (rev (dropWhile is_space s)))"

fun digit_groups :: "string \<Rightarrow> bool" where
  "digit_groups [] = False"
| "digit_groups [c] = is_digit c"
| "digit_groups (c # d # cs) =
     (is_digit c \<and> (if d = CHR ''_'' then digit_groups cs else digit_groups (d # cs)))"

definition digits_value :: "string \<Rightarrow> nat" where
  "digits_value ds = foldl (\<lambda>a c. 10 * a + digit_value c) 0 ds"

definition py_int :: "nat \<Rightarrow> string \<Rightarrow> int option" where
  "py_int max_digits s =
     (let t = strip s;
          negative = (t \<noteq> [] \<and> hd t = CHR ''-'');
          signed = (t \<noteq> [] \<and> (hd t = CHR ''-'' \<or> hd t = CHR ''+''));
          body = (if signed then tl t else t);
          ds = filter is_digit body
      in if \<not> digit_groups body then None
         else if max_digits \<noteq> 0 \<and> max_digits < length ds then None
         else Some (if negative then - int (digits_value ds) else int (digits_value ds)))"

subsection \<open>\<open>argparse\<close>\<close>

text \<open>
  The parser of the program has one positional argument \<open>port\<close> and the option \<open>--ssl\<close>
  (\<open>store_true\<close>); \<open>argparse\<close> adds \<open>-h\<close> and \<open>--help\<close>. \<open>parse_optional\<close> follows
  \<open>ArgumentParser._parse_optional\<close>: it decides for one command-line string whether it
  is a positional argument, one of the registered options (possibly abbreviated, possibly
  with an explicit argument), or an option the parser does not know.
\<close>

datatype option_name = Help | Ssl

datatype arg_class =
    Positional
  | Optional option_name "string option"
  | Unrecognized
  | Ambiguous

definition option_strings :: "(string \<times> option_name) list" where
  "option_strings = [(''-h'', Help), (''--help'', Help), (''--ssl'', Ssl)]"

definition before_equals :: "string \<Rightarrow> string" where
  "before_equals arg = takeWhile (\<lambda>c. c \<noteq> CHR ''='') arg"

definition after_equals :: "string \<Rightarrow> string" where
  "after_equals arg = tl (dropWhile (\<lambda>c. c \<noteq> CHR ''='') arg)"

definition get_option_tuples :: "string \<Rightarrow> (option_name \<times> string option) list" where
  "get_option_tuples arg =
     (if take 2 arg = ''--'' then
        concat (map (\<lambda>(s, a). if prefix (before_equals arg) s
                               then [(a, if CHR ''='' \<in> set arg then Some (after_equals arg) else None)]
                               else []) option_strings)
      else
        concat (map (\<lambda>(s, a). if s = take 2 arg then [(a, Some (drop 2 arg))]
                               else if prefix arg s then [(a, None)]
                               else []) option_strings))"

definition negative_number_core :: "string \<Rightarrow> bool" where
  "negative_number_core s =
     (case s of
        [] \<Rightarrow> False
      | c # r \<Rightarrow> c = CHR ''-'' \<and>
          ((r \<noteq> [] \<and> list_all is_digit r) \<or>
           (case dropWhile is_digit r of
              [] \<Rightarrow> False
            | d # f \<Rightarrow> d = CHR ''.'' \<and> f \<noteq> [] \<and> list_all is_digit f)))"

definition negative_number :: "string \<Rightarrow> bool" where
  "negative_number s =
     (negative_number_core s \<or> (s \<noteq> [] \<and> last s = CHR 0x0A \<and> negative_number_core (butlast s)))"

definition parse_optional :: "string \<Rightarrow> arg_class" where
  "parse_optional arg =
     (if arg = [] then Positional
      else if hd arg \<noteq> CHR ''-'' then Positional
      else case map_of option_strings arg of
        Some a \<Rightarrow> Optional a None
      | None \<Rightarrow>
          if length arg = 1 then Positional
          else case (if CHR ''='' \<in> set arg then map_of option_strings (before_equals arg) else None) of
            Some a \<Rightarrow> Optional a (Some (after_equals arg))
          | None \<Rightarrow>
              (case get_option_tuples arg of
                 [t] \<Rightarrow> Optional (fst t) (snd t)
               | _ # _ # _ \<Rightarrow> Ambiguous
               | [] \<Rightarrow>
                   if negative_number arg then Positional
                   else if CHR '' '' \<in> set arg then Positional
                   else Unrecognized))"

text \<open>
  The outcome of \<open>parser.parse_args()\<close>: the namespace (\<open>args.port\<close>, \<open>args.ssl\<close>), or
  \<open>parser.error\<close> (usage and message on the error stream, exit status 2), or the help
  action (help text, exit status 0).
\<close>

datatype parse_result = Parsed int bool | Usage_error | Help_exit

text \<open>
  An option taken from the command line. Neither action takes an argument, so an explicit
  argument is an error, except after the single-dash \<open>-h\<close>, where the rest of the string
  is read as further single-letter options.
\<close>

definition take_optional :: "string \<Rightarrow> option_name \<Rightarrow> string option \<Rightarrow> parse_result option" where
  "take_optional arg a explicit_arg =
     (case explicit_arg of
        None \<Rightarrow> (case a of Help \<Rightarrow> Some Help_exit | Ssl \<Rightarrow> None)
      | Some e \<Rightarrow>
          if take 2 arg \<noteq> ''--'' \<and> e \<noteq> [] \<and> list_all (\<lambda>c. c = CHR ''h'') e
          then Some Help_exit else Some Usage_error)"

text \<open>
  The strings before a \<open>--\<close> separator are consumed from left to right. The state is
  \<open>args.port\<close> if the positional has been converted, \<open>args.ssl\<close>, whether some string was
  left over (an unknown option or a second positional), and whether the string consumed
  last was the port.
\<close>

fun consume :: "nat \<Rightarrow> string list \<Rightarrow> int option \<times> bool \<times> bool \<times> bool
    \<Rightarrow> parse_result + (int option \<times> bool \<times> bool \<times> bool)" where
  "consume lim [] st = Inr st"
| "consume lim (arg # args) (port, ssl, extras, port_last) =
     (case parse_optional arg of
        Positional \<Rightarrow>
          (case port of
             None \<Rightarrow>
               (case py_int lim arg of
                  None \<Rightarrow> Inl Usage_error
                | Some p \<Rightarrow> consume lim args (Some p, ssl, extras, True))
           | Some _ \<Rightarrow> consume lim args (port, ssl, True, False))
      | Unrecognized \<Rightarrow> consume lim args (port, ssl, True, False)
      | Ambiguous \<Rightarrow> Inl Usage_error
      | Optional a e \<Rightarrow>
          (case take_optional arg a e of
             Some r \<Rightarrow> Inl r
           | None \<Rightarrow> consume lim args (port, True, extras, False)))"

text \<open>
  \<open>parse_args\<close> on \<open>sys.argv[1:]\<close>. Everything after the first \<open>--\<close> is positional; the
  separator itself is dropped only where it stands next to the port.
\<close>

definition parse_args :: "os \<Rightarrow> string list \<Rightarrow> parse_result" where
  "parse_args sys argv =
     (let lim = int_max_str_digits sys;
          pre = takeWhile (\<lambda>a. a \<noteq> ''--'') argv;
          post = drop 1 (dropWhile (\<lambda>a. a \<noteq> ''--'') argv)
      in if list_ex (\<lambda>a. parse_optional a = Ambiguous) pre then Usage_error
         else case consume lim pre (None, False, False, False) of
           Inl r \<Rightarrow> r
         | Inr (port, ssl, extras, port_last) \<Rightarrow>
             if ''--'' \<notin> set argv then
               (case port of
                  None \<Rightarrow> Usage_error
                | Some p \<Rightarrow> if extras then Usage_error else Parsed p ssl)
             else
               (case port of
                  None \<Rightarrow>
                    (case post of
                       [] \<Rightarrow> Usage_error
                     | t # ts \<Rightarrow>
                         (case py_int lim t of
                            None \<Rightarrow> Usage_error
                          | Some p \<Rightarrow> if ts = [] \<and> \<not> extras then Parsed p ssl else Usage_error))
                | Some p \<Rightarrow>
                    if port_last \<and> post = [] \<and> \<not> extras then Parsed p ssl else Usage_error))"

section \<open>The request handler\<close>

text \<open>
  What a handler sends is kept structured: the status line, each header, the blank line
  that ends the headers, and each chunk written to \<open>wfile\<close>.
\<close>

datatype wire = Status_line nat | Header string string | End_of_headers | Body string

datatype log_entry = Log_request string string nat | Log_error string nat

text \<open>
  The variables of \<open>create_test_server\<close> that the nested class \<open>MyHandler\<close> closes over.
  They are shared by all handlers of a run: a handler that assigned to one of them would
  change what every later handler sees.
\<close>

record cells =
  cell_port :: int
  cell_use_ssl :: bool

text \<open>
  One handler object exists per accepted connection. \<open>requestline\<close>, \<open>command\<close>, \<open>path\<close>
  and \<open>request_version\<close> are the attributes \<open>parse_request\<close> sets; \<open>headers_buffer\<close> is
  the framework's \<open>_headers_buffer\<close>, \<open>wfile\<close> what has been written to the socket so
  far, \<open>stderr_log\<close> the log lines the framework printed for this handler, and
  \<open>nonlocals\<close> the shared variables as the handler leaves them. Nothing reads the
  request attributes before the framework has set them.
\<close>

record handler =
  client_address :: "string \<times> nat"
  requestline :: string
  command :: "string option"
  path :: string
  request_version :: string
  headers_buffer :: "wire list"
  wfile :: "wire list"
  stderr_log :: "log_entry list"
  nonlocals :: cells

definition new_handler :: "cells \<Rightarrow> string \<times> nat \<Rightarrow> handler" where
  "new_handler vars addr =
     \<lparr>client_address = addr, requestline = [], command = None, path = [],
      request_version = ''HTTP/0.9'', headers_buffer = [], wfile = [], stderr_log = [],
      nonlocals = vars\<rparr>"

subsection \<open>Sending\<close>

text \<open>
  The sending methods of \<open>http.server.BaseHTTPRequestHandler\<close> (CPython 3.11).
  \<open>send_response_only\<close>, \<open>send_header\<close> and \<open>end_headers\<close> do nothing when the request
  version is \<open>HTTP/0.9\<close>, the version of a request line without a version.
  \<open>send_response\<close> logs the request and buffers the status line followed by the
  \<open>Server\<close> and \<open>Date\<close> headers; \<open>end_headers\<close> buffers the blank line and flushes the
  buffer to \<open>wfile\<close>. Writes to the socket are taken to succeed.
\<close>

definition send_response_only :: "nat \<Rightarrow> handler \<Rightarrow> handler" where
  "send_response_only code self =
     (if request_version self \<noteq> ''HTTP/0.9''
      then self\<lparr>headers_buffer := headers_buffer self @ [Status_line code]\<rparr>
      else self)"

definition send_header :: "string \<Rightarrow> string \<Rightarrow> handler \<Rightarrow> handler" where
  "send_header keyword v self =
     (if request_version self \<noteq> ''HTTP/0.9''
      then self\<lparr>headers_buffer := headers_buffer self @ [Header keyword v]\<rparr>
      else self)"

definition log_request :: "nat \<Rightarrow> handler \<Rightarrow> handler" where
  "log_request code self =
     self\<lparr>stderr_log := stderr_log self
            @ [Log_request (fst (client_address self)) (requestline self) code]\<rparr>"

definition send_response :: "os \<Rightarrow> nat \<Rightarrow> handler \<Rightarrow> handler" where
  "send_response sys code self0 =
     (let self1 = log_request code self0;
          self2 = send_response_only code self1;
          self3 = send_header ''Server'' (version_string sys) self2
      in send_header ''Date'' (date_time_string sys) self3)"

definition flush_headers :: "handler \<Rightarrow> handler" where
  "flush_headers self = self\<lparr>wfile := wfile self @ headers_buffer self, headers_buffer := []\<rparr>"

definition end_headers :: "handler \<Rightarrow> handler" where
  "end_headers self =
     (if request_version self \<noteq> ''HTTP/0.9''
      then flush_headers (self\<lparr>headers_buffer := headers_buffer self @ [End_of_headers]\<rparr>)
      else self)"

definition wfile_write :: "string \<Rightarrow> handler \<Rightarrow> handler" where
  "wfile_write b self = self\<lparr>wfile := wfile self @ [Body b]\<rparr>"

text \<open>
  \<open>send_error\<close>: a log line, the status line and headers, and the error document unless
  the status code has no body or the method is \<open>HEAD\<close>.
\<close>

definition send_error :: "os \<Rightarrow> nat \<Rightarrow> handler \<Rightarrow> handler" where
  "send_error sys code self0 =
     (let self1 = self0\<lparr>stderr_log := stderr_log self0 @ [Log_error (fst (client_address self0)) code]\<rparr>;
          self2 = send_response sys code self1;
          self3 = send_header ''Connection'' ''close'' self2;
          has_body = (200 \<le> code \<and> code \<noteq> 204 \<and> code \<noteq> 205 \<and> code \<noteq> 304);
          body = error_message sys code (requestline self0);
          self4 = (if has_body
                   then send_header ''Content-Length'' (str_int (int (length body)))
                          (send_header ''Content-Type'' ''text/html;charset=utf-8'' self3)
                   else self3);
          self5 = end_headers self4
      in if command self5 \<noteq> Some ''HEAD'' \<and> has_body \<and> body \<noteq> []
         then wfile_write body self5 else self5)"

subsection \<open>The page\<close>

text \<open>
  The f-string of \<open>do_GET\<close>, cut at its six replacement fields; \<open>{{\<close> and \<open>}}\<close> of the
  source are the single braces of the style sheet.
\<close>

definition page_0 :: string where
  \<open>page_0 =
       [CHR 0x0A]
     @ ''            <!DOCTYPE html>'' @ [CHR 0x0A]
     @ ''            <html>'' @ [CHR 0x0A]
     @ ''            <head>'' @ [CHR 0x0A]
     @ ''                <title>'' @ [CHR 0xE7, CHR 0xAB, CHR 0xAF, CHR 0xE5, CHR 0x8F, CHR 0xA3, CHR 0xE6, CHR 0xB5, CHR 0x8B, CHR 0xE8, CHR 0xAF, CHR 0x95, CHR 0xE6, CHR 0x88, CHR 0x90, CHR 0xE5, CHR 0x8A, CHR 0x9F] @ ''</title>'' @ [CHR 0x0A]
     @ ''                <meta charset="utf-8">'' @ [CHR 0x0A]
     @ ''                <style>'' @ [CHR 0x0A]
     @ ''                    body { font-family: Arial, sans-serif; margin: 40px; background: #f0f0f0; }'' @ [CHR 0x0A]
     @ ''                    .container { background: white; padding: 30px; border-radius: 10px; box-shadow: 0 2px 10px rgba(0,0,0,0.1); }'' @ [CHR 0x0A]
     @ ''                    .success { color: #28a745; font-size: 24px; font-weight: bold; }'' @ [CHR 0x0A]
     @ ''                    .info { color: #17a2b8; margin: 10px 0; }'' @ [CHR 0x0A]
     @ ''                    .highlight { background: #fff3cd; padding: 10px; border-radius: 5px; margin: 10px 0; }'' @ [CHR 0x0A]
     @ ''                </style>'' @ [CHR 0x0A]
     @ ''            </head>'' @ [CHR 0x0A]
     @ ''            <body>'' @ [CHR 0x0A]
     @ ''                <div class="container">'' @ [CHR 0x0A]
     @ ''                    <div class="success">'' @ [CHR 0xF0, CHR 0x9F, CHR 0x8E, CHR 0x89] @ '' '' @ [CHR 0xE7, CHR 0xAB, CHR 0xAF, CHR 0xE5, CHR 0x8F, CHR 0xA3] @ '' ''\<close>

definition page_1 :: string where
  \<open>page_1 =
       '' '' @ [CHR 0xE5, CHR 0xBC, CHR 0x80, CHR 0xE6, CHR 0x94, CHR 0xBE, CHR 0xE6, CHR 0x88, CHR 0x90, CHR 0xE5, CHR 0x8A, CHR 0x9F] @ ''!</div>'' @ [CHR 0x0A]
     @ ''                    <div class="info">'' @ [CHR 0xE6, CHR 0x9C, CHR 0x8D, CHR 0xE5, CHR 0x8A, CHR 0xA1, CHR 0xE5, CHR 0x99, CHR 0xA8, CHR 0xE4, CHR 0xBF, CHR 0xA1, CHR 0xE6, CHR 0x81, CHR 0xAF] @ '':</div>'' @ [CHR 0x0A]
     @ ''                    <div class="highlight">'' @ [CHR 0x0A]
     @ ''                        <strong>'' @ [CHR 0xE4, CHR 0xB8, CHR 0xBB, CHR 0xE6, CHR 0x9C, CHR 0xBA, CHR 0xE5, CHR 0x90, CHR 0x8D] @ '':</strong> ''\<close>

definition page_2 :: string where
  \<open>page_2 =
       ''<br>'' @ [CHR 0x0A]
     @ ''                        <strong>'' @ [CHR 0xE5, CHR 0x86, CHR 0x85, CHR 0xE7, CHR 0xBD, CHR 0x91] @ ''IP:</strong> ''\<close>

definition page_3 :: string where
  \<open>page_3 =
       ''<br>'' @ [CHR 0x0A]
     @ ''                        <strong>'' @ [CHR 0xE7, CHR 0x9B, CHR 0x91, CHR 0xE5, CHR 0x90, CHR 0xAC, CHR 0xE7, CHR 0xAB, CHR 0xAF, CHR 0xE5, CHR 0x8F, CHR 0xA3] @ '':</strong> ''\<close>

definition page_4 :: string where
  \<open>page_4 =
       ''<br>'' @ [CHR 0x0A]
     @ ''                        <strong>'' @ [CHR 0xE5, CHR 0x8D, CHR 0x8F, CHR 0xE8, CHR 0xAE, CHR 0xAE] @ '':</strong> ''\<close>

definition page_5 :: string where
  \<open>page_5 =
       ''<br>'' @ [CHR 0x0A]
     @ ''                        <strong>'' @ [CHR 0xE5, CHR 0xAE, CHR 0xA2, CHR 0xE6, CHR 0x88, CHR 0xB7, CHR 0xE7, CHR 0xAB, CHR 0xAF] @ ''IP:</strong> ''\<close>

definition page_6 :: string where
  \<open>page_6 =
       [CHR 0x0A]
     @ ''                    </div>'' @ [CHR 0x0A]
     @ ''                    <div class="info">'' @ [CHR 0xE2, CHR 0x9C, CHR 0x85] @ '' '' @ [CHR 0xE9, CHR 0x98, CHR 0xB2, CHR 0xE7, CHR 0x81, CHR 0xAB, CHR 0xE5, CHR 0xA2, CHR 0x99, CHR 0xE9, CHR 0x85, CHR 0x8D, CHR 0xE7, CHR 0xBD, CHR 0xAE, CHR 0xE6, CHR 0xAD, CHR 0xA3, CHR 0xE7, CHR 0xA1, CHR 0xAE] @ ''</div>'' @ [CHR 0x0A]
     @ ''                    <div class="info">'' @ [CHR 0xE2, CHR 0x9C, CHR 0x85] @ '' '' @ [CHR 0xE6, CHR 0x9C, CHR 0x8D, CHR 0xE5, CHR 0x8A, CHR 0xA1, CHR 0xE6, CHR 0xAD, CHR 0xA3, CHR 0xE5, CHR 0xB8, CHR 0xB8, CHR 0xE8, CHR 0xBF, CHR 0x90, CHR 0xE8, CHR 0xA1, CHR 0x8C] @ ''</div>'' @ [CHR 0x0A]
     @ ''                </div>'' @ [CHR 0x0A]
     @ ''            </body>'' @ [CHR 0x0A]
     @ ''            </html>'' @ [CHR 0x0A]
     @ ''            ''\<close>


definition message :: "int \<Rightarrow> bool \<Rightarrow> string \<Rightarrow> string \<Rightarrow> string \<Rightarrow> string" where
  "message port use_ssl hostname local_ip client_ip =
     page_0 @ str_int port @ page_1 @ hostname @ page_2 @ local_ip @ page_3 @ str_int port
     @ page_4 @ (if use_ssl then ''HTTPS'' else ''HTTP'') @ page_5 @ client_ip @ page_6"

text \<open>
  \<open>do_GET\<close>, statement by statement. \<open>port\<close> and \<open>use_ssl\<close> are read from the variables
  of the enclosing \<open>create_test_server\<close> call; the method assigns to neither. The only
  statement that can raise is \<open>socket.gethostbyname\<close>.
\<close>

definition do_GET :: "os \<Rightarrow> handler \<Rightarrow> unit result \<times> handler" where
  "do_GET sys self0 =
     (let port = cell_port (nonlocals self0);
          use_ssl = cell_use_ssl (nonlocals self0);
          self1 = send_response sys 200 self0;
          self2 = send_header ''Content-type'' ''text/html; charset=utf-8'' self1;
          self3 = end_headers self2;
          hostname = gethostname sys
      in case gethostbyname sys hostname of
           None \<Rightarrow> (Inl gaierror, self3)
         | Some local_ip \<Rightarrow>
             (Inr (), wfile_write (message port use_ssl hostname local_ip
                                     (fst (client_address self3))) self3))"

text \<open>
  \<open>do_HEAD\<close> is inherited from \<open>SimpleHTTPRequestHandler\<close>: it answers with a status line
  and headers for the file the path names, and no body.
\<close>

definition do_HEAD :: "os \<Rightarrow> handler \<Rightarrow> handler" where
  "do_HEAD sys self0 =
     (let (code, hs) = head_response sys (path self0);
          self1 = send_response sys code self0;
          self2 = foldl (\<lambda>self (keyword, v). send_header keyword v self) self1 hs
      in end_headers self2)"

subsection \<open>Reading the request\<close>

text \<open>
  \<open>parse_request\<close> (CPython 3.11.4) works on the request line decoded as Latin-1, one
  character per byte. \<open>split_words\<close> is \<open>str.split()\<close>, \<open>split_at\<close> is \<open>str.split(sep)\<close>.
\<close>

definition is_whitespace :: "char \<Rightarrow> bool" where
  "is_whitespace c =
     (c \<in> set [CHR 0x09, CHR 0x0A, CHR 0x0B, CHR 0x0C, CHR 0x0D, CHR 0x1C, CHR 0x1D,
               CHR 0x1E, CHR 0x1F, CHR 0x20, CHR 0x85, CHR 0xA0])"

fun words_from :: "string \<Rightarrow> string \<Rightarrow> string list" where
  "words_from cur [] = (if cur = [] then [] else [cur])"
| "words_from cur (c # cs) =
     (if is_whitespace c
      then (if cur = [] then words_from [] cs else cur # words_from [] cs)
      else words_from (cur @ [c]) cs)"

definition split_words :: "string \<Rightarrow> string list" where
  "split_words s = words_from [] s"

fun fields_from :: "char \<Rightarrow> string \<Rightarrow> string \<Rightarrow> string list" where
  "fields_from sep cur [] = [cur]"
| "fields_from sep cur (c # cs) =
     (if c = sep then cur # fields_from sep [] cs else fields_from sep (cur @ [c]) cs)"

definition split_at :: "char \<Rightarrow> string \<Rightarrow> string list" where
  "split_at sep s = fields_from sep [] s"

definition rstrip_crlf :: "string \<Rightarrow> string" where
  "rstrip_crlf s = rev (dropWhile (\<lambda>c. c = CHR 0x0D \<or> c = CHR 0x0A) (rev s))"

text \<open>
  The version word of a request line with three or more words: it must be \<open>HTTP/\<close>
  followed by two groups of at most ten digits separated by one dot (anything else
  raises \<open>ValueError\<close>, answered with 400); a major version of 2 or more is answered
  with 505.
\<close>

datatype version_check = Version_ok | Bad_version | Version_not_supported

definition check_version :: "string \<Rightarrow> version_check" where
  "check_version version =
     (if take 5 version \<noteq> ''HTTP/'' then Bad_version
      else let version_number = split_at CHR ''.'' (drop 5 version)
           in if length version_number \<noteq> 2 then Bad_version
              else if list_ex (\<lambda>component. component = [] \<or> \<not> list_all is_digit component)
                        version_number then Bad_version
              else if list_ex (\<lambda>component. 10 < length component) version_number then Bad_version
              else if 2 \<le> digits_value (version_number ! 0) then Version_not_supported
              else Version_ok)"

text \<open>
  What follows the request line: a header block the framework accepts, or one it answers
  with 431 (a line too long, or too many headers).
\<close>

datatype headers = Headers_ok | Line_too_long | Too_many_headers

definition parse_request :: "os \<Rightarrow> string \<Rightarrow> headers \<Rightarrow> handler \<Rightarrow> bool \<times> handler" where
  "parse_request sys raw_requestline hdrs self0 =
     (let self1 = self0\<lparr>command := None, request_version := ''HTTP/0.9'',
                        requestline := rstrip_crlf raw_requestline\<rparr>;
          words = split_words (rstrip_crlf raw_requestline)
      in if length words = 0 then (False, self1)
         else if 3 \<le> length words \<and> check_version (last words) = Bad_version
           then (False, send_error sys 400 self1)
         else if 3 \<le> length words \<and> check_version (last words) = Version_not_supported
           then (False, send_error sys 505 self1)
         else
           (let self2 = (if 3 \<le> length words then self1\<lparr>request_version := last words\<rparr> else self1)
            in if \<not> (2 \<le> length words \<and> length words \<le> 3) then (False, send_error sys 400 self2)
               else if length words = 2 \<and> words ! 0 \<noteq> ''GET'' then (False, send_error sys 400 self2)
               else
                 (let self3 = self2\<lparr>command := Some (words ! 0),
                                    path := (if take 2 (words ! 1) = ''//''
                                             then CHR ''/'' # dropWhile (\<lambda>c. c = CHR ''/'') (words ! 1)
                                             else words ! 1)\<rparr>
                  in case hdrs of
                       Headers_ok \<Rightarrow> (True, self3)
                     | Line_too_long \<Rightarrow> (False, send_error sys 431 self3)
                     | Too_many_headers \<Rightarrow> (False, send_error sys 431 self3))))"

text \<open>
  \<open>handle_one_request\<close> on the raw request line (with its line end, as \<open>readline\<close>
  returns it) and the header block. A line of more than 65536 bytes is answered with
  414; an empty read ends the handler quietly; a request that \<open>parse_request\<close> refuses
  has been answered there. Otherwise the method \<open>do_\<close> + command is called: \<open>do_GET\<close> of
  the program, the inherited \<open>do_HEAD\<close>, and 501 for any other command, for the class
  has no other such method. With the protocol version \<open>HTTP/1.0\<close> of the class, a
  connection carries one request.
\<close>

definition handle_one_request :: "os \<Rightarrow> string \<Rightarrow> headers \<Rightarrow> handler \<Rightarrow> unit result \<times> handler" where
  "handle_one_request sys raw_requestline hdrs self0 =
     (if 65536 < length raw_requestline
      then (Inr (), send_error sys 414
                      (self0\<lparr>requestline := [], request_version := [], command := Some []\<rparr>))
      else if raw_requestline = [] then (Inr (), self0)
      else case parse_request sys raw_requestline hdrs self0 of
             (False, self1) \<Rightarrow> (Inr (), self1)
           | (True, self1) \<Rightarrow>
               if command self1 = Some ''GET'' then do_GET sys self1
               else if command self1 = Some ''HEAD'' then (Inr (), do_HEAD sys self1)
               else (Inr (), send_error sys 501 self1))"

section \<open>The server process\<close>

text \<open>
  What the process does that can be seen from outside, in order: lines printed, the life
  of the listening socket, connections accepted, what each handler sent, tracebacks.
\<close>

datatype action =
    Stdout string
  | Usage_message
  | Help_message
  | Socket_create
  | Socket_bind string int
  | Socket_listen
  | Tls_wrap
  | Socket_close
  | Accept "string \<times> nat"
  | Accept_failed
  | Stderr_log log_entry
  | Sent "wire list"
  | Handler_traceback pyexn
  | Close_connection
  | Traceback pyexn

subsection \<open>Opening the listening socket\<close>

text \<open>
  \<open>socketserver.TCPServer(address, handler)\<close> creates a socket, binds it and puts it
  into the listening state; if that raises, it closes the socket and re-raises.
  \<open>bind\<close> itself refuses a port outside \<open>0..65535\<close> with \<open>OverflowError\<close> before the
  operating system is asked.
\<close>

definition TCPServer :: "os \<Rightarrow> string \<Rightarrow> int \<Rightarrow> unit result \<times> action list" where
  "TCPServer sys bind_address port =
     (if port < 0 \<or> 65535 < port then (Inl OverflowError, [Socket_create, Socket_close])
      else case bind_answer sys port of
        Bound \<Rightarrow> (Inr (), [Socket_create, Socket_bind bind_address port, Socket_listen])
      | Address_in_use \<Rightarrow> (Inl OSError_address_in_use, [Socket_create, Socket_close])
      | Permission_denied \<Rightarrow> (Inl PermissionError, [Socket_create, Socket_close]))"

text \<open>
  \<open>ssl.wrap_socket(sock, keyfile, certfile, server_side=True)\<close> loads the certificate
  chain, then the private key, then checks that they belong together; a missing file
  raises \<open>FileNotFoundError\<close>, an unreadable one \<open>PermissionError\<close>, anything else
  \<open>ssl.SSLError\<close>.
\<close>

definition load_pem :: "pem \<Rightarrow> nat result" where
  "load_pem f =
     (case f of
        Missing \<Rightarrow> Inl FileNotFoundError
      | Unreadable \<Rightarrow> Inl PermissionError
      | Malformed \<Rightarrow> Inl SSLError
      | Pem k \<Rightarrow> Inr k)"

definition wrap_socket :: "os \<Rightarrow> string \<Rightarrow> string \<Rightarrow> unit result \<times> action list" where
  "wrap_socket sys keyfile certfile =
     (case load_pem (files sys certfile) of
        Inl e \<Rightarrow> (Inl e, [])
      | Inr c \<Rightarrow>
          (case load_pem (files sys keyfile) of
             Inl e \<Rightarrow> (Inl e, [])
           | Inr k \<Rightarrow> if c = k then (Inr (), [Tls_wrap]) else (Inl SSLError, [])))"

subsection \<open>Serving\<close>

text \<open>
  What reaches the listening socket, in order of arrival. A connection comes with the
  state of the world at that moment. \<open>Accept_fails\<close>: \<open>accept\<close> raises \<open>OSError\<close>; on a
  TLS-wrapped socket the handshake is part of \<open>accept\<close>, so a failed handshake is this
  case. Otherwise the connection is accepted from a peer address and the peer closes
  without sending a request line, or resets the connection while the request line is
  read, or sends a request line and a header block.

  A peer may also connect and then stay silent with the connection open. The server
  handles one connection at a time and sets no timeout, so it waits for that peer, in
  the TLS handshake inside \<open>accept\<close> (\<open>Stalls_in_handshake\<close>, on a TLS socket only) or
  for the request line (\<open>Stalls_before_request\<close>), and handles nothing that arrives
  later. \<open>Interrupt\<close> is the interrupt signal; it reaches the server while it waits for
  a connection or for such a peer.
\<close>

datatype request = Closes_silently | Resets | Sends string headers

datatype conn = Accept_fails | Accepted "string \<times> nat" request

datatype event =
    Connection os conn
  | Stalls_in_handshake
  | Stalls_before_request "string \<times> nat"
  | Interrupt

text \<open>
  \<open>finish_request\<close> constructs the handler over the shared variables and runs it; what
  comes back are the handler's result, what it logged and sent, and the shared variables
  as it left them.
\<close>

fun finish_request :: "cells \<Rightarrow> os \<Rightarrow> string \<times> nat \<Rightarrow> request
    \<Rightarrow> (unit result \<times> action list) \<times> cells" where
  "finish_request vars sys addr Closes_silently = ((Inr (), []), vars)"
| "finish_request vars sys addr Resets = ((Inl ConnectionResetError, []), vars)"
| "finish_request vars sys addr (Sends raw_requestline hdrs) =
     (case handle_one_request sys raw_requestline hdrs (new_handler vars addr) of
        (r, self) \<Rightarrow>
          ((r, map Stderr_log (stderr_log self) @ [Sent (wfile self)]), nonlocals self))"

text \<open>
  \<open>BaseServer._handle_request_noblock\<close>: an \<open>OSError\<close> from \<open>accept\<close> is swallowed; an
  exception of class \<open>Exception\<close> from the handler is reported by \<open>handle_error\<close> (a
  traceback on the error stream) and the connection is shut down; any other exception
  shuts the connection down and is raised again. \<open>handle_request\<close> is that method with
  the shared variables passed in and out; \<open>handle_request_noblock\<close> is what it does in
  a server created for a port and a TLS flag.
\<close>

definition is_Exception :: "pyexn \<Rightarrow> bool" where
  "is_Exception e = (e \<noteq> KeyboardInterrupt)"

fun handle_request :: "cells \<Rightarrow> os \<Rightarrow> conn \<Rightarrow> (pyexn option \<times> action list) \<times> cells" where
  "handle_request vars sys Accept_fails = ((None, [Accept_failed]), vars)"
| "handle_request vars sys (Accepted addr req) =
     (case finish_request vars sys addr req of
        ((Inr _, acts), vars') \<Rightarrow> ((None, Accept addr # acts @ [Close_connection]), vars')
      | ((Inl e, acts), vars') \<Rightarrow>
          if is_Exception e
          then ((None, Accept addr # acts @ [Handler_traceback e, Close_connection]), vars')
          else ((Some e, Accept addr # acts @ [Close_connection]), vars'))"

definition handle_request_noblock :: "int \<Rightarrow> bool \<Rightarrow> os \<Rightarrow> conn \<Rightarrow> pyexn option \<times> action list" where
  "handle_request_noblock port use_ssl sys c =
     fst (handle_request \<lparr>cell_port = port, cell_use_ssl = use_ssl\<rparr> sys c)"

text \<open>
  The loop of \<open>serve_forever\<close>, with the shared variables passed from one connection to
  the next. It never returns normally in this program (nothing calls \<open>shutdown\<close>): it
  raises (\<open>Some e\<close>), or, when no further event arrives or a peer stalls and no
  interrupt follows, stays blocked (\<open>None\<close>). An interrupt that arrives while the
  handler waits for a stalled peer's request line shuts that connection down on its
  way out. \<open>serve_forever\<close> is the loop in a server created for a port and a TLS flag.
\<close>

fun is_interrupt :: "event \<Rightarrow> bool" where
  "is_interrupt Interrupt = True"
| "is_interrupt ev = False"

fun serve :: "cells \<Rightarrow> event list \<Rightarrow> (pyexn option \<times> action list) \<times> cells" where
  "serve vars [] = ((None, []), vars)"
| "serve vars (Interrupt # evs) = ((Some KeyboardInterrupt, []), vars)"
| "serve vars (Stalls_in_handshake # evs) =
     (if list_ex is_interrupt evs then ((Some KeyboardInterrupt, []), vars) else ((None, []), vars))"
| "serve vars (Stalls_before_request addr # evs) =
     (if list_ex is_interrupt evs
      then ((Some KeyboardInterrupt, [Accept addr, Close_connection]), vars)
      else ((None, [Accept addr]), vars))"
| "serve vars (Connection sys c # evs) =
     (case handle_request vars sys c of
        ((Some e, acts), vars') \<Rightarrow> ((Some e, acts), vars')
      | ((None, acts), vars') \<Rightarrow>
          (case serve vars' evs of ((r, acts'), vars'') \<Rightarrow> ((r, acts @ acts'), vars'')))"

definition serve_forever :: "int \<Rightarrow> bool \<Rightarrow> event list \<Rightarrow> pyexn option \<times> action list" where
  "serve_forever port use_ssl evs = fst (serve \<lparr>cell_port = port, cell_use_ssl = use_ssl\<rparr> evs)"

subsection \<open>\<open>create_test_server\<close> and the main program\<close>

definition banner :: "string \<Rightarrow> string \<Rightarrow> int \<Rightarrow> string \<Rightarrow> string \<Rightarrow> action list" where
  \<open>banner protocol bind_address port hostname local_ip =
     [Stdout ([CHR 0xF0, CHR 0x9F, CHR 0x9A, CHR 0x80] @ '' '' @ protocol @ '' '' @ [CHR 0xE6, CHR 0x9C, CHR 0x8D, CHR 0xE5, CHR 0x8A, CHR 0xA1, CHR 0xE5, CHR 0x99, CHR 0xA8, CHR 0xE5, CHR 0x90, CHR 0xAF, CHR 0xE5, CHR 0x8A, CHR 0xA8, CHR 0xE6, CHR 0x88, CHR 0x90, CHR 0xE5, CHR 0x8A, CHR 0x9F] @ ''!''),
      Stdout ([CHR 0xF0, CHR 0x9F, CHR 0x93, CHR 0x8D] @ '' '' @ [CHR 0xE7, CHR 0x9B, CHR 0x91, CHR 0xE5, CHR 0x90, CHR 0xAC, CHR 0xE5, CHR 0x9C, CHR 0xB0, CHR 0xE5, CHR 0x9D, CHR 0x80] @ '': '' @ bind_address @ '':'' @ str_int port),
      Stdout ([CHR 0xF0, CHR 0x9F, CHR 0x8F, CHR 0xA0] @ '' '' @ [CHR 0xE4, CHR 0xB8, CHR 0xBB, CHR 0xE6, CHR 0x9C, CHR 0xBA, CHR 0xE5, CHR 0x90, CHR 0x8D] @ '': '' @ hostname),
      Stdout ([CHR 0xF0, CHR 0x9F, CHR 0x8C, CHR 0x90] @ '' '' @ [CHR 0xE5, CHR 0x86, CHR 0x85, CHR 0xE7, CHR 0xBD, CHR 0x91] @ ''IP: '' @ local_ip),
      Stdout [],
      Stdout ([CHR 0xF0, CHR 0x9F, CHR 0x93, CHR 0xB1] @ '' '' @ [CHR 0xE8, CHR 0xAE, CHR 0xBF, CHR 0xE9, CHR 0x97, CHR 0xAE, CHR 0xE5, CHR 0x9C, CHR 0xB0, CHR 0xE5, CHR 0x9D, CHR 0x80] @ '':''),
      Stdout (''   '' @ [CHR 0xE6, CHR 0x9C, CHR 0xAC, CHR 0xE6, CHR 0x9C, CHR 0xBA, CHR 0xE8, CHR 0xAE, CHR 0xBF, CHR 0xE9, CHR 0x97, CHR 0xAE] @ '': http://localhost:'' @ str_int port),
      Stdout (''   '' @ [CHR 0xE5, CHR 0xB1, CHR 0x80, CHR 0xE5, CHR 0x9F, CHR 0x9F, CHR 0xE7, CHR 0xBD, CHR 0x91, CHR 0xE8, CHR 0xAE, CHR 0xBF, CHR 0xE9, CHR 0x97, CHR 0xAE] @ '': http://'' @ local_ip @ '':'' @ str_int port),
      Stdout [],
      Stdout ([CHR 0xE2, CHR 0x8F, CHR 0xB9, CHR 0xEF, CHR 0xB8, CHR 0x8F] @ ''  '' @ [CHR 0xE6, CHR 0x8C, CHR 0x89] @ '' Ctrl+C '' @ [CHR 0xE5, CHR 0x81, CHR 0x9C, CHR 0xE6, CHR 0xAD, CHR 0xA2, CHR 0xE6, CHR 0x9C, CHR 0x8D, CHR 0xE5, CHR 0x8A, CHR 0xA1, CHR 0xE5, CHR 0x99, CHR 0xA8]),
      Stdout (replicate 50 CHR ''-'')]\<close>

definition stopped :: string where
  \<open>stopped = [CHR 0x0A, CHR 0xF0, CHR 0x9F, CHR 0x9B, CHR 0x91] @ '' '' @ [CHR 0xE6, CHR 0x9C, CHR 0x8D, CHR 0xE5, CHR 0x8A, CHR 0xA1, CHR 0xE5, CHR 0x99, CHR 0xA8, CHR 0xE5, CHR 0xB7, CHR 0xB2, CHR 0xE5, CHR 0x81, CHR 0x9C, CHR 0xE6, CHR 0xAD, CHR 0xA2]\<close>

text \<open>
  The result is \<open>Some (Inr ())\<close> when the function returns, \<open>Some (Inl e)\<close> when it raises
  \<open>e\<close>, and \<open>None\<close> when it is still serving after the last event.
\<close>

definition create_test_server :: "int \<Rightarrow> bool \<Rightarrow> os \<Rightarrow> event list \<Rightarrow> unit result option \<times> action list" where
  "create_test_server port use_ssl sys evs =
     (let bind_address = ''0.0.0.0'';
          (httpd, a1) =
            (if use_ssl then
               (case TCPServer sys bind_address port of
                  (Inl e, a) \<Rightarrow> (Inl e, a)
                | (Inr _, a) \<Rightarrow>
                    (case wrap_socket sys ''key.pem'' ''cert.pem'' of
                       (Inl e, b) \<Rightarrow> (Inl e, a @ b)
                     | (Inr _, b) \<Rightarrow> (Inr ''HTTPS'', a @ b)))
             else
               (case TCPServer sys bind_address port of
                  (Inl e, a) \<Rightarrow> (Inl e, a)
                | (Inr _, a) \<Rightarrow> (Inr ''HTTP'', a)))
      in case httpd of
           Inl e \<Rightarrow> (Some (Inl e), a1)
         | Inr protocol \<Rightarrow>
             (let hostname = gethostname sys in
              case gethostbyname sys hostname of
                None \<Rightarrow> (Some (Inl gaierror), a1)
              | Some local_ip \<Rightarrow>
                  (let a2 = banner protocol bind_address port hostname local_ip in
                   case serve_forever port use_ssl evs of
                     (None, a3) \<Rightarrow> (None, a1 @ a2 @ a3)
                   | (Some e, a3) \<Rightarrow>
                       if e = KeyboardInterrupt
                       then (Some (Inr ()), a1 @ a2 @ a3 @ [Stdout stopped, Socket_close])
                       else (Some (Inl e), a1 @ a2 @ a3 @ [Socket_close]))))"

definition preamble :: "int \<Rightarrow> bool \<Rightarrow> action list" where
  \<open>preamble port use_ssl =
     [Stdout ([CHR 0xF0, CHR 0x9F, CHR 0x94, CHR 0xA7] @ '' '' @ [CHR 0xE5, CHR 0x87, CHR 0x86, CHR 0xE5, CHR 0xA4, CHR 0x87, CHR 0xE5, CHR 0x90, CHR 0xAF, CHR 0xE5, CHR 0x8A, CHR 0xA8, CHR 0xE6, CHR 0xB5, CHR 0x8B, CHR 0xE8, CHR 0xAF, CHR 0x95, CHR 0xE6, CHR 0x9C, CHR 0x8D, CHR 0xE5, CHR 0x8A, CHR 0xA1, CHR 0xE5, CHR 0x99, CHR 0xA8] @ ''...''),
      Stdout ([CHR 0xF0, CHR 0x9F, CHR 0x93, CHR 0x8B] @ '' '' @ [CHR 0xE7, CHR 0xAB, CHR 0xAF, CHR 0xE5, CHR 0x8F, CHR 0xA3] @ '': '' @ str_int port),
      Stdout ([CHR 0xF0, CHR 0x9F, CHR 0x94, CHR 0x92] @ '' SSL: '' @ (if use_ssl then [CHR 0xE5, CHR 0x90, CHR 0xAF, CHR 0xE7, CHR 0x94, CHR 0xA8] else [CHR 0xE7, CHR 0xA6, CHR 0x81, CHR 0xE7, CHR 0x94, CHR 0xA8])),
      Stdout []]\<close>

text \<open>
  The program run on a command line and a sequence of events: what it does, and its exit
  status (\<open>None\<close>: it is still running after the last event). An exception that nothing
  catches ends the process with a traceback and exit status 1.
\<close>

definition main :: "os \<Rightarrow> string list \<Rightarrow> event list \<Rightarrow> action list \<times> nat option" where
  "main sys argv evs =
     (case parse_args sys argv of
        Usage_error \<Rightarrow> ([Usage_message], Some 2)
      | Help_exit \<Rightarrow> ([Help_message], Some 0)
      | Parsed port use_ssl \<Rightarrow>
          (case create_test_server port use_ssl sys evs of
             (None, acts) \<Rightarrow> (preamble port use_ssl @ acts, None)
           | (Some (Inr _), acts) \<Rightarrow> (preamble port use_ssl @ acts, Some 0)
           | (Some (Inl e), acts) \<Rightarrow> (preamble port use_ssl @ acts @ [Traceback e], Some 1)))"

section \<open>Reading a trace\<close>

definition responses :: "action list \<Rightarrow> wire list list" where
  "responses acts = concat (map (\<lambda>a. case a of Sent ws \<Rightarrow> [ws] | _ \<Rightarrow> []) acts)"

definition accepted :: "action list \<Rightarrow> (string \<times> nat) list" where
  "accepted acts = concat (map (\<lambda>a. case a of Accept addr \<Rightarrow> [addr] | _ \<Rightarrow> []) acts)"

fun response_status :: "wire list \<Rightarrow> nat option" where
  "response_status (Status_line code # ws) = Some code"
| "response_status ws = None"

definition response_headers :: "wire list \<Rightarrow> (string \<times> string) list" where
  "response_headers ws =
     concat (map (\<lambda>w. case w of Header k v \<Rightarrow> [(k, v)] | _ \<Rightarrow> [])
                 (takeWhile (\<lambda>w. w \<noteq> End_of_headers) ws))"

definition response_body :: "wire list \<Rightarrow> string option" where
  "response_body ws =
     (case concat (map (\<lambda>w. case w of Body b \<Rightarrow> [b] | _ \<Rightarrow> []) ws) of
        [] \<Rightarrow> None
      | bs \<Rightarrow> Some (concat bs))"

text \<open>Header names are compared without regard to case, as HTTP does.\<close>

definition ascii_lower :: "char \<Rightarrow> char" where
  "ascii_lower c =
     (case map_of (zip ''ABCDEFGHIJKLMNOPQRSTUVWXYZ'' ''abcdefghijklmnopqrstuvwxyz'') c of
        Some l \<Rightarrow> l
      | None \<Rightarrow> c)"

definition header_value :: "string \<Rightarrow> wire list \<Rightarrow> string option" where
  "header_value name ws =
     map_of (map (\<lambda>(k, v). (map ascii_lower k, v)) (response_headers ws)) (map ascii_lower name)"

definition response_head :: "os \<Rightarrow> wire list" where
  "response_head sys =
     [Status_line 200, Header ''Server'' (version_string sys), Header ''Date'' (date_time_string sys),
      Header ''Content-type'' ''text/html; charset=utf-8'', End_of_headers]"

text \<open>
  What an interrupt does to the connection the server is busy with when it arrives: a
  peer the handler is waiting for has its connection shut down.
\<close>

fun interrupted_handler :: "event list \<Rightarrow> action list" where
  "interrupted_handler [] = []"
| "interrupted_handler (Connection sys c # evs) = interrupted_handler evs"
| "interrupted_handler (Stalls_before_request addr # evs) = [Close_connection]"
| "interrupted_handler (Stalls_in_handshake # evs) = []"
| "interrupted_handler (Interrupt # evs) = []"

fun is_connection :: "event \<Rightarrow> bool" where
  "is_connection (Connection sys c) = True"
| "is_connection ev = False"

section \<open>Example worlds\<close>

text \<open>
  A host named \<open>srv\<close> that resolves to \<open>192.168.1.10\<close>; port 8000 is taken and the ports
  below 1024 are privileged; both PEM files are present and belong together.
\<close>

definition example_bind :: "int \<Rightarrow> bind_answer" where
  "example_bind p =
     (if p = 8000 then Address_in_use
      else if 0 < p \<and> p < 1024 then Permission_denied
      else Bound)"

definition example_files :: "string \<Rightarrow> pem" where
  "example_files f = (if f = ''cert.pem'' \<or> f = ''key.pem'' then Pem 1 else Missing)"

definition example_error_message :: "nat \<Rightarrow> string \<Rightarrow> string" where
  "example_error_message code line = ''<h1>Error response</h1>''"

definition example_head_response :: "string \<Rightarrow> nat \<times> (string \<times> string) list" where
  "example_head_response p = (404, [(''Connection'', ''close'')])"

definition example_os :: os where
  "example_os =
     \<lparr>gethostname = ''srv'',
      gethostbyname = [''srv'' \<mapsto> ''192.168.1.10''],
      version_string = ''SimpleHTTP/0.6 Python/3.11.4'',
      date_time_string = ''Mon, 01 Jan 2024 00:00:00 GMT'',
      bind_answer = example_bind,
      files = example_files,
      int_max_str_digits = 4300,
      error_message = example_error_message,
      head_response = example_head_response\<rparr>"

text \<open>The same host at a moment when its name does not resolve.\<close>

definition resolver_down :: os where
  "resolver_down = example_os\<lparr>gethostbyname := Map.empty\<rparr>"

text \<open>A host whose name contains the letters \<open>HTTPS\<close>.\<close>

definition https_named :: os where
  "https_named =
     example_os\<lparr>gethostname := ''HTTPS-GW'', gethostbyname := [''HTTPS-GW'' \<mapsto> ''192.168.1.10'']\<rparr>"

text \<open>The same host as \<open>example_os\<close> without the file \<open>key.pem\<close>.\<close>

definition cert_only :: "string \<Rightarrow> pem" where
  "cert_only f = (if f = ''cert.pem'' then Pem 1 else Missing)"

definition key_missing :: os where
  "key_missing = example_os\<lparr>files := cert_only\<rparr>"

text \<open>
  Request lines as they arrive: one of HTTP/1.1, one without a version (HTTP/0.9), and
  one of a version the framework refuses.
\<close>

definition get_line :: string where
  "get_line = ''GET /anything HTTP/1.1'' @ [CHR 0x0D, CHR 0x0A]"

definition simple_get_line :: string where
  "simple_get_line = ''GET /anything'' @ [CHR 0x0D, CHR 0x0A]"

definition http2_get_line :: string where
  "http2_get_line = ''GET /anything HTTP/2.0'' @ [CHR 0x0D, CHR 0x0A]"

definition browser :: conn where
  "browser = Accepted (''10.0.0.5'', 51000) (Sends get_line Headers_ok)"

section \<open>Substrings of the page\<close>

text \<open>
  A string that starts with a character absent from a stretch of text cannot begin inside
  that stretch; and it cannot run out of a field into the text after it when that text
  starts with a character the string does not continue with.
\<close>

lemma sublist_skip_left:
  "x \<notin> set S \<Longrightarrow> sublist (x # xs) (S @ R) = sublist (x # xs) R"
  by (induction S) (auto simp: sublist_Cons_right)

lemma prefix_stops:
  assumes "prefix xs (V @ c # R)" and "c \<notin> set xs"
  shows "prefix xs V"
proof -
  from assms(1) consider "prefix xs V" | us where "xs = V @ us" "prefix us (c # R)"
    by (auto simp: prefix_append)
  then show ?thesis
  proof cases
    case 1 then show ?thesis .
  next
    case 2
    with assms(2) have "us = []" by (cases us) auto
    with 2 show ?thesis by simp
  qed
qed

lemma sublist_skip_field:
  "\<not> sublist (x # xs) V \<Longrightarrow> c \<notin> set xs \<Longrightarrow> sublist (x # xs) (V @ c # R) = sublist (x # xs) (c # R)"
proof (induction V)
  case Nil
  then show ?case by simp
next
  case (Cons v V)
  from Cons.prems(1) have np: "\<not> prefix (x # xs) (v # V)" and ns: "\<not> sublist (x # xs) V"
    by (auto simp: sublist_Cons_right)
  have "\<not> prefix (x # xs) (v # V @ c # R)"
  proof
    assume "prefix (x # xs) (v # V @ c # R)"
    then have xv: "x = v" and p: "prefix xs (V @ c # R)" by simp_all
    from p Cons.prems(2) have "prefix xs V" by (rule prefix_stops)
    with xv np show False by simp
  qed
  moreover have "sublist (x # xs) ((v # V) @ c # R)
      = (prefix (x # xs) (v # V @ c # R) \<or> sublist (x # xs) (V @ c # R))"
    by (simp only: append_Cons sublist_Cons_right)
  ultimately show ?case using Cons.IH[OF ns Cons.prems(2)] by blast
qed

lemma digit_char_in: "d < 10 \<Longrightarrow> digit_char d \<in> set ''0123456789''"
proof -
  assume "d < 10"
  then have "d \<in> {0,1,2,3,4,5,6,7,8,9}" by auto
  then show ?thesis unfolding digit_char_def by auto
qed

lemma digits_set: "set (digits n) \<subseteq> set ''0123456789''"
proof (induction n rule: digits.induct)
  case (1 n)
  show ?case
  proof (cases "n < 10")
    case True
    then show ?thesis using digit_char_in[of n] by (subst digits.simps) simp
  next
    case False
    then show ?thesis using 1 digit_char_in[of "n mod 10"]
      by (subst digits.simps) simp
  qed
qed

lemma str_int_no_H: "CHR ''H'' \<notin> set (str_int i)"
  using digits_set[of "nat i"] digits_set[of "nat (- i)"]
  by (auto simp: str_int_def)

lemma page_no_H:
  "CHR ''H'' \<notin> set page_0" "CHR ''H'' \<notin> set page_1" "CHR ''H'' \<notin> set page_2"
  "CHR ''H'' \<notin> set page_3" "CHR ''H'' \<notin> set page_4" "CHR ''H'' \<notin> set page_5"
  "CHR ''H'' \<notin> set page_6"
  by (simp_all add: page_0_def page_1_def page_2_def page_3_def page_4_def page_5_def page_6_def)

lemma page_heads:
  "page_2 = CHR ''<'' # tl page_2" "page_3 = CHR ''<'' # tl page_3"
  "page_5 = CHR ''<'' # tl page_5" "page_6 = CHR 0x0A # tl page_6"
  by (simp_all add: page_2_def page_3_def page_5_def page_6_def)

lemma sublist_after_field:
  assumes "\<not> sublist (x # xs) V" and "pg = c # rest" and "c \<notin> set xs" and "x \<notin> set pg"
  shows "sublist (x # xs) (V @ pg @ R) = sublist (x # xs) R"
proof -
  have "sublist (x # xs) (V @ pg @ R) = sublist (x # xs) (V @ c # (rest @ R))"
    using assms(2) by simp
  also have "\<dots> = sublist (x # xs) (c # (rest @ R))"
    using assms(1,3) by (rule sublist_skip_field)
  also have "\<dots> = sublist (x # xs) (pg @ R)"
    using assms(2) by simp
  also have "\<dots> = sublist (x # xs) R"
    using assms(4) by (rule sublist_skip_left)
  finally show ?thesis .
qed

lemma message_no_HTTPS:
  assumes h: "\<not> sublist ''HTTPS'' hostname" and i: "\<not> sublist ''HTTPS'' local_ip"
    and c: "\<not> sublist ''HTTPS'' client_ip"
  shows "\<not> sublist ''HTTPS'' (message port False hostname local_ip client_ip)"
proof -
  let ?P = "''HTTPS''"
  let ?R6 = "client_ip @ page_6 @ []"
  let ?R5 = "''HTTP'' @ page_5 @ ?R6"
  let ?R3 = "local_ip @ page_3 @ str_int port @ page_4 @ ?R5"
  let ?R1 = "hostname @ page_2 @ ?R3"
  have nl: "CHR 0x0A \<notin> set ''TTPS''" and lt: "CHR ''<'' \<notin> set ''TTPS''" by simp_all
  have nH: "\<not> sublist ?P ''HTTP''" by (simp add: sublist_code)
  have "message port False hostname local_ip client_ip = page_0 @ str_int port @ page_1 @ ?R1"
    by (simp add: message_def)
  then have "sublist ?P (message port False hostname local_ip client_ip)
      = sublist ?P (page_0 @ str_int port @ page_1 @ ?R1)" by simp
  also have "\<dots> = sublist ?P (str_int port @ page_1 @ ?R1)"
    using page_no_H(1) by (rule sublist_skip_left)
  also have "\<dots> = sublist ?P (page_1 @ ?R1)"
    using str_int_no_H by (rule sublist_skip_left)
  also have "\<dots> = sublist ?P ?R1"
    using page_no_H(2) by (rule sublist_skip_left)
  also have "\<dots> = sublist ?P ?R3"
    using h page_heads(1) lt page_no_H(3) by (rule sublist_after_field)
  also have "\<dots> = sublist ?P (str_int port @ page_4 @ ?R5)"
    using i page_heads(2) lt page_no_H(4) by (rule sublist_after_field)
  also have "\<dots> = sublist ?P (page_4 @ ?R5)"
    using str_int_no_H by (rule sublist_skip_left)
  also have "\<dots> = sublist ?P ?R5"
    using page_no_H(5) by (rule sublist_skip_left)
  also have "\<dots> = sublist ?P ?R6"
    using nH page_heads(3) lt page_no_H(6) by (rule sublist_after_field)
  also have "\<dots> = sublist ?P []"
    using c page_heads(4) nl page_no_H(7) by (rule sublist_after_field)
  finally show ?thesis by simp
qed

lemma message_fields:
  "sublist (str_int port) (message port use_ssl hostname local_ip client_ip)"
  "sublist hostname (message port use_ssl hostname local_ip client_ip)"
  "sublist local_ip (message port use_ssl hostname local_ip client_ip)"
  "sublist (if use_ssl then ''HTTPS'' else ''HTTP'') (message port use_ssl hostname local_ip client_ip)"
  "sublist client_ip (message port use_ssl hostname local_ip client_ip)"
proof -
  let ?l = "if use_ssl then ''HTTPS'' else ''HTTP''"
  let ?m = "message port use_ssl hostname local_ip client_ip"
  have "?m = page_0 @ str_int port @ (page_1 @ hostname @ page_2 @ local_ip @ page_3 @ str_int port @ page_4 @ ?l @ page_5 @ client_ip @ page_6)"
    by (simp add: message_def)
  then show "sublist (str_int port) ?m" by (simp only: sublist_appendI)
  have "?m = (page_0 @ str_int port @ page_1) @ hostname @ (page_2 @ local_ip @ page_3 @ str_int port @ page_4 @ ?l @ page_5 @ client_ip @ page_6)"
    by (simp add: message_def)
  then show "sublist hostname ?m" by (simp only: sublist_appendI)
  have "?m = (page_0 @ str_int port @ page_1 @ hostname @ page_2) @ local_ip @ (page_3 @ str_int port @ page_4 @ ?l @ page_5 @ client_ip @ page_6)"
    by (simp add: message_def)
  then show "sublist local_ip ?m" by (simp only: sublist_appendI)
  have "?m = (page_0 @ str_int port @ page_1 @ hostname @ page_2 @ local_ip @ page_3 @ str_int port @ page_4) @ ?l @ (page_5 @ client_ip @ page_6)"
    by (simp add: message_def)
  then show "sublist ?l ?m" by (simp only: sublist_appendI)
  have "?m = (page_0 @ str_int port @ page_1 @ hostname @ page_2 @ local_ip @ page_3 @ str_int port @ page_4 @ ?l @ page_5) @ client_ip @ page_6"
    by (simp add: message_def)
  then show "sublist client_ip ?m" by (simp only: sublist_appendI)
qed

lemma str_int_8080: "str_int 8080 = ''8080''"
  by (simp add: str_int_def digits.simps digit_char_def)

section \<open>The shared variables\<close>

lemma nonlocals_sending [simp]:
  "nonlocals (send_response_only code self) = nonlocals self"
  "nonlocals (send_header keyword v self) = nonlocals self"
  "nonlocals (log_request code self) = nonlocals self"
  "nonlocals (flush_headers self) = nonlocals self"
  "nonlocals (end_headers self) = nonlocals self"
  "nonlocals (wfile_write b self) = nonlocals self"
  by (simp_all add: send_response_only_def send_header_def log_request_def flush_headers_def
      end_headers_def wfile_write_def)

lemma nonlocals_send_response [simp]: "nonlocals (send_response sys code self) = nonlocals self"
  by (simp add: send_response_def Let_def)

lemma nonlocals_send_error [simp]: "nonlocals (send_error sys code self) = nonlocals self"
  by (simp add: send_error_def Let_def)

lemma nonlocals_do_GET [simp]: "nonlocals (snd (do_GET sys self)) = nonlocals self"
  by (simp add: do_GET_def Let_def split: option.splits)

lemma nonlocals_send_headers [simp]:
  "nonlocals (foldl (\<lambda>self kv. send_header (fst kv) (snd kv) self) self hs) = nonlocals self"
  by (induction hs arbitrary: self) simp_all

lemma nonlocals_do_HEAD [simp]: "nonlocals (do_HEAD sys self) = nonlocals self"
  by (simp add: do_HEAD_def Let_def case_prod_unfold)

lemma nonlocals_parse_request [simp]:
  "nonlocals (snd (parse_request sys raw hdrs self)) = nonlocals self"
  by (simp add: parse_request_def Let_def split: headers.splits)

lemma nonlocals_handle_one_request [simp]:
  "nonlocals (snd (handle_one_request sys raw hdrs self)) = nonlocals self"
proof -
  obtain b self1 where p: "parse_request sys raw hdrs self = (b, self1)"
    by (cases "parse_request sys raw hdrs self")
  then have "nonlocals self1 = nonlocals self"
    using nonlocals_parse_request[of sys raw hdrs self] by simp
  then show ?thesis using p nonlocals_do_GET[of sys self1]
    by (cases b) (simp_all add: handle_one_request_def)
qed

lemma finish_request_vars [simp]: "snd (finish_request vars sys addr req) = vars"
proof (cases req)
  case (Sends raw hdrs)
  then show ?thesis
    using nonlocals_handle_one_request[of sys raw hdrs "new_handler vars addr"]
    by (simp add: case_prod_unfold new_handler_def)
qed simp_all

lemma handle_request_vars [simp]: "snd (handle_request vars sys c) = vars"
proof (cases c)
  case (Accepted addr req)
  then show ?thesis
    using finish_request_vars[of vars sys addr req]
    by (cases "finish_request vars sys addr req") (auto split: sum.splits)
qed simp

lemma serve_vars [simp]: "snd (serve vars evs) = vars"
proof (induction evs arbitrary: vars)
  case (Cons ev evs)
  show ?case
  proof (cases ev)
    case (Connection sys c)
    obtain r acts v where h: "handle_request vars sys c = ((r, acts), v)"
      by (cases "handle_request vars sys c") auto
    then have v: "v = vars" using handle_request_vars[of vars sys c] by simp
    obtain r' acts' v' where s: "serve vars evs = ((r', acts'), v')"
      by (cases "serve vars evs") auto
    then have "v' = vars" using Cons.IH[of vars] by simp
    with Connection h v s show ?thesis by (cases r) simp_all
  qed simp_all
qed simp

section \<open>The serving loop\<close>

lemma do_GET_cases:
  "fst (do_GET sys self) = Inr () \<or> fst (do_GET sys self) = Inl gaierror"
  by (cases "gethostbyname sys (gethostname sys)") (simp_all add: do_GET_def Let_def)

lemma handle_one_request_cases:
  "fst (handle_one_request sys raw hdrs self) = Inr ()
   \<or> fst (handle_one_request sys raw hdrs self) = Inl gaierror"
proof -
  obtain b self1 where p: "parse_request sys raw hdrs self = (b, self1)"
    by (cases "parse_request sys raw hdrs self")
  show ?thesis using p do_GET_cases[of sys self1]
    by (cases b) (simp_all add: handle_one_request_def)
qed

lemma finish_request_cases:
  "(\<exists>acts. fst (finish_request vars sys addr req) = (Inr (), acts))
   \<or> (\<exists>acts e. fst (finish_request vars sys addr req) = (Inl e, acts) \<and> is_Exception e)"
proof (cases req)
  case Closes_silently
  then show ?thesis by simp
next
  case Resets
  then show ?thesis by (simp add: is_Exception_def)
next
  case (Sends raw hdrs)
  from handle_one_request_cases[of sys raw hdrs "new_handler vars addr"] show ?thesis
    using Sends
    by (cases "handle_one_request sys raw hdrs (new_handler vars addr)")
       (auto simp: is_Exception_def)
qed

lemma handle_request_noblock_simps:
  "handle_request_noblock port use_ssl sys Accept_fails = (None, [Accept_failed])"
  "handle_request_noblock port use_ssl sys (Accepted addr Closes_silently)
     = (None, [Accept addr, Close_connection])"
  "handle_request_noblock port use_ssl sys (Accepted addr Resets)
     = (None, [Accept addr, Handler_traceback ConnectionResetError, Close_connection])"
  by (simp_all add: handle_request_noblock_def is_Exception_def)

lemma handle_request_noblock_swallows: "fst (handle_request_noblock port use_ssl sys c) = None"
proof (cases c)
  case Accept_fails
  then show ?thesis by (simp add: handle_request_noblock_def)
next
  case (Accepted addr req)
  from finish_request_cases[of "\<lparr>cell_port = port, cell_use_ssl = use_ssl\<rparr>" sys addr req] show ?thesis
    using Accepted
    by (cases "finish_request \<lparr>cell_port = port, cell_use_ssl = use_ssl\<rparr> sys addr req")
       (auto simp: handle_request_noblock_def)
qed

lemma handle_request_noblock_closes:
  "snd (handle_request_noblock port use_ssl sys c) = [Accept_failed]
   \<or> (\<exists>addr acts. snd (handle_request_noblock port use_ssl sys c) = Accept addr # acts @ [Close_connection])"
proof (cases c)
  case Accept_fails
  then show ?thesis by (simp add: handle_request_noblock_def)
next
  case (Accepted addr req)
  from finish_request_cases[of "\<lparr>cell_port = port, cell_use_ssl = use_ssl\<rparr>" sys addr req] show ?thesis
    using Accepted
    by (cases "finish_request \<lparr>cell_port = port, cell_use_ssl = use_ssl\<rparr> sys addr req")
       (auto simp: handle_request_noblock_def)
qed

lemma serve_forever_Nil: "serve_forever port use_ssl [] = (None, [])"
  by (simp add: serve_forever_def)

lemma serve_forever_Interrupt: "serve_forever port use_ssl (Interrupt # evs) = (Some KeyboardInterrupt, [])"
  by (simp add: serve_forever_def)

lemma serve_forever_Connection:
  "serve_forever port use_ssl (Connection sys c # evs) =
     (fst (serve_forever port use_ssl evs),
      snd (handle_request_noblock port use_ssl sys c) @ snd (serve_forever port use_ssl evs))"
proof -
  let ?v = "\<lparr>cell_port = port, cell_use_ssl = use_ssl\<rparr>"
  obtain r acts v where h: "handle_request ?v sys c = ((r, acts), v)"
    by (cases "handle_request ?v sys c") auto
  then have v: "v = ?v" using handle_request_vars[of ?v sys c] by simp
  from h have r: "r = None"
    using handle_request_noblock_swallows[of port use_ssl sys c]
    by (simp add: handle_request_noblock_def)
  obtain r' acts' v' where s: "serve ?v evs = ((r', acts'), v')"
    by (cases "serve ?v evs") auto
  show ?thesis using h v r s by (simp add: serve_forever_def handle_request_noblock_def)
qed

lemma is_interrupt_iff: "list_ex is_interrupt evs = (Interrupt \<in> set evs)"
proof (induction evs)
  case (Cons ev evs)
  then show ?case by (cases ev) auto
qed simp

lemma serve_forever_stalls:
  "serve_forever port use_ssl (Stalls_in_handshake # evs) =
     (if Interrupt \<in> set evs then (Some KeyboardInterrupt, []) else (None, []))"
  "serve_forever port use_ssl (Stalls_before_request addr # evs) =
     (if Interrupt \<in> set evs then (Some KeyboardInterrupt, [Accept addr, Close_connection])
      else (None, [Accept addr]))"
  by (simp_all add: serve_forever_def is_interrupt_iff)

lemmas serve_forever_simps = serve_forever_Nil serve_forever_Interrupt serve_forever_Connection
  serve_forever_stalls

lemma serve_forever_fst:
  "fst (serve_forever port use_ssl evs) = (if Interrupt \<in> set evs then Some KeyboardInterrupt else None)"
proof (induction evs)
  case Nil
  then show ?case by (simp add: serve_forever_simps)
next
  case (Cons ev evs)
  then show ?case by (cases ev) (simp_all add: serve_forever_simps)
qed

lemma serve_forever_until_Interrupt:
  "Interrupt \<notin> set evs1 \<Longrightarrow>
   serve_forever port use_ssl (evs1 @ Interrupt # evs2) =
     (Some KeyboardInterrupt, snd (serve_forever port use_ssl evs1) @ interrupted_handler evs1)"
proof (induction evs1)
  case Nil
  then show ?case by (simp add: serve_forever_simps)
next
  case (Cons ev evs1)
  then show ?case by (cases ev) (simp_all add: serve_forever_simps)
qed

lemma serve_forever_running:
  "Interrupt \<notin> set evs \<Longrightarrow>
   serve_forever port use_ssl evs = (None, snd (serve_forever port use_ssl evs))"
  by (simp add: prod_eq_iff serve_forever_fst)

lemma serve_forever_connections:
  "list_all is_connection evs1 \<Longrightarrow>
   serve_forever port use_ssl (evs1 @ evs2) =
     (fst (serve_forever port use_ssl evs2),
      snd (serve_forever port use_ssl evs1) @ snd (serve_forever port use_ssl evs2))"
proof (induction evs1)
  case Nil
  then show ?case by (simp add: serve_forever_simps)
next
  case (Cons ev evs1)
  then show ?case by (cases ev) (simp_all add: serve_forever_simps)
qed

lemma create_test_server_split:
  "create_test_server port use_ssl sys evs =
     (case create_test_server port use_ssl sys [] of
        (Some r, a) \<Rightarrow> (Some r, a)
      | (None, a) \<Rightarrow>
          (case serve_forever port use_ssl evs of
             (None, a3) \<Rightarrow> (None, a @ a3)
           | (Some e, a3) \<Rightarrow>
               if e = KeyboardInterrupt
               then (Some (Inr ()), a @ a3 @ [Stdout stopped, Socket_close])
               else (Some (Inl e), a @ a3 @ [Socket_close])))"
proof -
  obtain r1 a1 where T: "TCPServer sys ''0.0.0.0'' port = (r1, a1)"
    by (cases "TCPServer sys ''0.0.0.0'' port")
  obtain r2 a2 where W: "wrap_socket sys ''key.pem'' ''cert.pem'' = (r2, a2)"
    by (cases "wrap_socket sys ''key.pem'' ''cert.pem''")
  obtain r3 a3 where S: "serve_forever port use_ssl evs = (r3, a3)"
    by (cases "serve_forever port use_ssl evs")
  show ?thesis
    unfolding create_test_server_def using T W S
    by (cases r1; cases r2; cases use_ssl; cases "gethostbyname sys (gethostname sys)"; cases r3)
       (simp_all add: Let_def serve_forever_Nil)
qed

lemmas sending_defs = send_response_def send_response_only_def send_header_def log_request_def
  flush_headers_def end_headers_def wfile_write_def Let_def

lemma do_GET_resolved:
  assumes "gethostbyname sys (gethostname sys) = Some local_ip"
    and "request_version self \<noteq> ''HTTP/0.9''" and "headers_buffer self = []"
  shows "fst (do_GET sys self) = Inr ()"
    and "wfile (snd (do_GET sys self)) =
           wfile self @ response_head sys
           @ [Body (message (cell_port (nonlocals self)) (cell_use_ssl (nonlocals self))
                      (gethostname sys) local_ip (fst (client_address self)))]"
    and "stderr_log (snd (do_GET sys self)) =
           stderr_log self @ [Log_request (fst (client_address self)) (requestline self) 200]"
  using assms by (simp_all add: do_GET_def sending_defs response_head_def)

lemma do_GET_unresolved:
  assumes "gethostbyname sys (gethostname sys) = None"
    and "request_version self \<noteq> ''HTTP/0.9''" and "headers_buffer self = []"
  shows "fst (do_GET sys self) = Inl gaierror"
    and "wfile (snd (do_GET sys self)) = wfile self @ response_head sys"
    and "stderr_log (snd (do_GET sys self)) =
           stderr_log self @ [Log_request (fst (client_address self)) (requestline self) 200]"
  using assms by (simp_all add: do_GET_def sending_defs response_head_def)

lemma do_GET_simple_request:
  assumes "request_version self = ''HTTP/0.9''"
  shows "gethostbyname sys (gethostname sys) = None \<Longrightarrow>
           fst (do_GET sys self) = Inl gaierror \<and> wfile (snd (do_GET sys self)) = wfile self"
    and "gethostbyname sys (gethostname sys) = Some local_ip \<Longrightarrow>
           fst (do_GET sys self) = Inr ()
           \<and> wfile (snd (do_GET sys self)) =
               wfile self @ [Body (message (cell_port (nonlocals self)) (cell_use_ssl (nonlocals self))
                      (gethostname sys) local_ip (fst (client_address self)))]"
  using assms by (simp_all add: do_GET_def sending_defs)

lemma response_head_status: "response_status (response_head sys @ ws) = Some 200"
  by (simp add: response_head_def)

lemma response_head_content_type:
  "header_value ''Content-Type'' (response_head sys @ ws) = Some ''text/html; charset=utf-8''"
  by (simp add: response_head_def header_value_def response_headers_def ascii_lower_def)

lemma response_head_body: "response_body (response_head sys @ [Body b]) = Some b"
  and response_head_no_body: "response_body (response_head sys) = None"
  and response_only_body: "response_body [Body b] = Some b"
  by (simp_all add: response_head_def response_body_def)

lemma do_GET_body:
  assumes "gethostbyname sys (gethostname sys) = Some local_ip"
    and "headers_buffer self = []" and "wfile self = []"
  shows "fst (do_GET sys self) = Inr ()
       \<and> response_body (wfile (snd (do_GET sys self))) =
           Some (message (cell_port (nonlocals self)) (cell_use_ssl (nonlocals self))
                      (gethostname sys) local_ip (fst (client_address self)))"
proof (cases "request_version self = ''HTTP/0.9''")
  case True
  then show ?thesis
    using do_GET_simple_request(2)[OF True assms(1)] assms(3) by (simp add: response_only_body)
next
  case False
  then show ?thesis
    using do_GET_resolved(1,2)[OF assms(1) False assms(2)] assms(3) by (simp add: response_head_body)
qed

lemma parse_request_True:
  assumes "parse_request sys raw hdrs h = (True, self)"
  shows "headers_buffer self = headers_buffer h" and "wfile self = wfile h"
    and "stderr_log self = stderr_log h" and "client_address self = client_address h"
    and "nonlocals self = nonlocals h" and "requestline self = rstrip_crlf raw"
  using assms
  by (auto simp: parse_request_def Let_def split: if_splits headers.splits)

lemma parse_request_nonempty:
  assumes "parse_request sys raw hdrs h = (True, self)"
  shows "raw \<noteq> []"
proof
  assume "raw = []"
  then have "split_words (rstrip_crlf raw) = []" by (simp add: rstrip_crlf_def split_words_def)
  then have "fst (parse_request sys raw hdrs h) = False" by (simp add: parse_request_def Let_def)
  with assms show False by simp
qed

lemma handle_one_request_GET:
  assumes "parse_request sys raw hdrs h = (True, self)" and "command self = Some ''GET''"
    and "length raw \<le> 65536"
  shows "handle_one_request sys raw hdrs h = do_GET sys self"
  using assms parse_request_nonempty[OF assms(1)] by (simp add: handle_one_request_def)

lemmas request_defs = parse_request_def rstrip_crlf_def split_words_def is_whitespace_def
  check_version_def split_at_def is_digit_def digits_value_def digit_value_def

lemma parse_get_line:
  "parse_request sys get_line Headers_ok (new_handler vars addr) =
     (True, (new_handler vars addr)\<lparr>command := Some ''GET'', path := ''/anything'',
        request_version := ''HTTP/1.1'', requestline := ''GET /anything HTTP/1.1''\<rparr>)"
  by (simp add: request_defs get_line_def new_handler_def Let_def)

lemma parse_simple_get_line:
  "parse_request sys simple_get_line Headers_ok (new_handler vars addr) =
     (True, (new_handler vars addr)\<lparr>command := Some ''GET'', path := ''/anything'',
        request_version := ''HTTP/0.9'', requestline := ''GET /anything''\<rparr>)"
  by (simp add: request_defs simple_get_line_def new_handler_def Let_def)

lemma line_lengths: "length get_line \<le> 65536" "length simple_get_line \<le> 65536"
  by (simp_all add: get_line_def simple_get_line_def)

lemma browser_handler:
  fixes port use_ssl
  defines "h \<equiv> (new_handler \<lparr>cell_port = port, cell_use_ssl = use_ssl\<rparr> (''10.0.0.5'', 51000))
        \<lparr>command := Some ''GET'', path := ''/anything'',
         request_version := ''HTTP/1.1'', requestline := ''GET /anything HTTP/1.1''\<rparr>"
  shows "handle_one_request sys get_line Headers_ok
           (new_handler \<lparr>cell_port = port, cell_use_ssl = use_ssl\<rparr> (''10.0.0.5'', 51000))
         = do_GET sys h"
    and "request_version h \<noteq> ''HTTP/0.9''" and "headers_buffer h = []" and "wfile h = []"
    and "stderr_log h = []" and "client_address h = (''10.0.0.5'', 51000)"
    and "requestline h = ''GET /anything HTTP/1.1''"
    and "nonlocals h = \<lparr>cell_port = port, cell_use_ssl = use_ssl\<rparr>"
proof -
  show "handle_one_request sys get_line Headers_ok
           (new_handler \<lparr>cell_port = port, cell_use_ssl = use_ssl\<rparr> (''10.0.0.5'', 51000))
         = do_GET sys h"
    unfolding h_def by (rule handle_one_request_GET[OF parse_get_line _ line_lengths(1)]) simp
qed (simp_all add: h_def new_handler_def)

lemma finish_browser_down:
  "finish_request \<lparr>cell_port = port, cell_use_ssl = use_ssl\<rparr> resolver_down (''10.0.0.5'', 51000)
       (Sends get_line Headers_ok) =
     ((Inl gaierror,
       [Stderr_log (Log_request ''10.0.0.5'' ''GET /anything HTTP/1.1'' 200),
        Sent (response_head resolver_down)]),
      \<lparr>cell_port = port, cell_use_ssl = use_ssl\<rparr>)"
proof -
  note b = browser_handler
  have r: "gethostbyname resolver_down (gethostname resolver_down) = None"
    by (simp add: resolver_down_def)
  note g = do_GET_unresolved[OF r b(2) b(3)]
  show ?thesis
    by (simp only: finish_request.simps b(1)) (simp add: case_prod_unfold g b)
qed

lemma finish_browser_up:
  "finish_request \<lparr>cell_port = port, cell_use_ssl = use_ssl\<rparr> example_os (''10.0.0.5'', 51000)
       (Sends get_line Headers_ok) =
     ((Inr (),
       [Stderr_log (Log_request ''10.0.0.5'' ''GET /anything HTTP/1.1'' 200),
        Sent (response_head example_os @ [Body (message port use_ssl ''srv'' ''192.168.1.10'' ''10.0.0.5'')])]),
      \<lparr>cell_port = port, cell_use_ssl = use_ssl\<rparr>)"
proof -
  note b = browser_handler
  have r: "gethostbyname example_os (gethostname example_os) = Some ''192.168.1.10''"
    by (simp add: example_os_def)
  have n: "gethostname example_os = ''srv''" by (simp add: example_os_def)
  note g = do_GET_resolved[OF r b(2) b(3)]
  show ?thesis
    by (simp only: finish_request.simps b(1)) (simp add: case_prod_unfold g b n)
qed

lemma handle_browser_down:
  "handle_request_noblock port use_ssl resolver_down browser =
     (None,
      [Accept (''10.0.0.5'', 51000), Stderr_log (Log_request ''10.0.0.5'' ''GET /anything HTTP/1.1'' 200),
       Sent (response_head resolver_down), Handler_traceback gaierror, Close_connection])"
  by (simp add: handle_request_noblock_def browser_def finish_browser_down is_Exception_def
      del: finish_request.simps)

lemma handle_browser_up:
  "handle_request_noblock port use_ssl example_os browser =
     (None,
      [Accept (''10.0.0.5'', 51000), Stderr_log (Log_request ''10.0.0.5'' ''GET /anything HTTP/1.1'' 200),
       Sent (response_head example_os @ [Body (message port use_ssl ''srv'' ''192.168.1.10'' ''10.0.0.5'')]),
       Close_connection])"
  by (simp add: handle_request_noblock_def browser_def finish_browser_up
      del: finish_request.simps)

section \<open>Start-up and shutdown\<close>

lemma accepted_preamble: "accepted (preamble port use_ssl @ acts) = accepted acts"
  and responses_preamble: "responses (preamble port use_ssl @ acts) = responses acts"
  by (simp_all add: accepted_def responses_def preamble_def)

lemma main_Parsed:
  "parse_args sys argv = Parsed port use_ssl \<Longrightarrow>
   main sys argv evs =
     (case create_test_server port use_ssl sys evs of
        (None, acts) \<Rightarrow> (preamble port use_ssl @ acts, None)
      | (Some (Inr _), acts) \<Rightarrow> (preamble port use_ssl @ acts, Some 0)
      | (Some (Inl e), acts) \<Rightarrow> (preamble port use_ssl @ acts @ [Traceback e], Some 1))"
  by (simp add: main_def)

lemma create_test_server_bind_fails:
  "fst (TCPServer sys ''0.0.0.0'' port) = Inl e \<Longrightarrow>
   create_test_server port use_ssl sys evs = (Some (Inl e), snd (TCPServer sys ''0.0.0.0'' port))"
  by (cases "TCPServer sys ''0.0.0.0'' port") (simp add: create_test_server_def Let_def)

lemma TCPServer_refused:
  "0 \<le> port \<Longrightarrow> port \<le> 65535 \<Longrightarrow> bind_answer sys port \<noteq> Bound \<Longrightarrow>
   \<exists>e. (e = OSError_address_in_use \<or> e = PermissionError)
     \<and> TCPServer sys bind_address port = (Inl e, [Socket_create, Socket_close])"
  by (cases "bind_answer sys port") (simp_all add: TCPServer_def)

lemma create_test_server_wrap_fails:
  "fst (TCPServer sys ''0.0.0.0'' port) = Inr () \<Longrightarrow>
   fst (wrap_socket sys ''key.pem'' ''cert.pem'') = Inl e \<Longrightarrow>
   create_test_server port True sys evs =
     (Some (Inl e), snd (TCPServer sys ''0.0.0.0'' port) @ snd (wrap_socket sys ''key.pem'' ''cert.pem''))"
  by (cases "TCPServer sys ''0.0.0.0'' port"; cases "wrap_socket sys ''key.pem'' ''cert.pem''")
     (simp add: create_test_server_def Let_def)

lemma TCPServer_ok:
  "fst (TCPServer sys bind_address port) = Inr () \<Longrightarrow>
   TCPServer sys bind_address port = (Inr (), [Socket_create, Socket_bind bind_address port, Socket_listen])"
  by (cases "bind_answer sys port") (simp_all add: TCPServer_def split: if_splits)

lemma wrap_socket_key_missing:
  "files sys keyfile = Missing \<Longrightarrow>
   \<exists>e. (e = FileNotFoundError \<or> e = PermissionError \<or> e = SSLError)
     \<and> wrap_socket sys keyfile certfile = (Inl e, [])"
  by (cases "files sys certfile") (simp_all add: wrap_socket_def load_pem_def)

lemma main_running_Parsed:
  assumes "snd (main sys argv []) = None"
  shows "\<exists>port use_ssl. parse_args sys argv = Parsed port use_ssl"
  using assms by (cases "parse_args sys argv") (simp_all add: main_def)

lemma main_split:
  assumes "snd (main sys argv []) = None" and Parsed: "parse_args sys argv = Parsed port use_ssl"
  shows "main sys argv evs =
       (case serve_forever port use_ssl evs of
          (None, a3) \<Rightarrow> (fst (main sys argv []) @ a3, None)
        | (Some e, a3) \<Rightarrow>
            if e = KeyboardInterrupt
            then (fst (main sys argv []) @ a3 @ [Stdout stopped, Socket_close], Some 0)
            else (fst (main sys argv []) @ a3 @ [Socket_close, Traceback e], Some 1))"
proof -
  obtain r a where C: "create_test_server port use_ssl sys [] = (r, a)"
    by (cases "create_test_server port use_ssl sys []")
  obtain r3 a3 where S: "serve_forever port use_ssl evs = (r3, a3)"
    by (cases "serve_forever port use_ssl evs")
  from assms(1) have r: "r = None"
    using main_Parsed[OF Parsed, of "[]"] C by (cases r) (auto split: sum.splits)
  have "main sys argv [] = (preamble port use_ssl @ a, None)"
    using main_Parsed[OF Parsed, of "[]"] C r by simp
  moreover have "create_test_server port use_ssl sys evs =
      (case r3 of None \<Rightarrow> (None, a @ a3)
       | Some e \<Rightarrow> if e = KeyboardInterrupt
           then (Some (Inr ()), a @ a3 @ [Stdout stopped, Socket_close])
           else (Some (Inl e), a @ a3 @ [Socket_close]))"
    using create_test_server_split[of port use_ssl sys evs] C r S by (cases r3) simp_all
  ultimately show ?thesis
    using main_Parsed[OF Parsed, of evs] S by (cases r3) auto
qed

section \<open>Evaluating the argument parser\<close>

lemmas argparse_defs = parse_args_def parse_optional_def option_strings_def get_option_tuples_def
  before_equals_def after_equals_def negative_number_def negative_number_core_def py_int_def
  strip_def is_space_def is_digit_def digits_value_def digit_value_def take_optional_def Let_def

lemma py_8080: "py_int 4300 ''8080'' = Some 8080"
  by (simp add: argparse_defs)

lemma po_8080: "parse_optional ''8080'' = Positional"
  by (simp add: argparse_defs)

lemma po_ssl: "parse_optional ''--ssl'' = Optional Ssl None"
  by (simp add: argparse_defs)

lemma po_sssl: "parse_optional ''-ssl'' = Unrecognized"
  by (simp add: argparse_defs)

lemma parse_8080: "parse_args example_os [''8080''] = Parsed 8080 False"
  by (simp add: argparse_defs example_os_def)

lemma parse_8443: "parse_args key_missing [''8443'', ''--ssl''] = Parsed 8443 True"
  by (simp add: argparse_defs example_os_def key_missing_def)

lemma parse_70000: "parse_args example_os [''70000''] = Parsed 70000 False"
  by (simp add: argparse_defs example_os_def)

lemma parse_sssl: "parse_args example_os [''8080'', ''-ssl''] = Usage_error"
  by (simp add: argparse_defs example_os_def)

section \<open>Reading the trace of a run\<close>

lemma responses_banner: "responses (banner protocol bind_address port hostname local_ip) = []"
  and accepted_banner: "accepted (banner protocol bind_address port hostname local_ip) = []"
  by (simp_all add: responses_def accepted_def banner_def)

lemma responses_append: "responses (xs @ ys) = responses xs @ responses ys"
  and accepted_append: "accepted (xs @ ys) = accepted xs @ accepted ys"
  by (simp_all add: responses_def accepted_def)

lemma responses_Cons: "responses (a # xs) = (case a of Sent ws \<Rightarrow> [ws] | _ \<Rightarrow> []) @ responses xs"
  and responses_Nil: "responses [] = []"
  and accepted_Cons: "accepted (a # xs) = (case a of Accept addr \<Rightarrow> [addr] | _ \<Rightarrow> []) @ accepted xs"
  and accepted_Nil: "accepted [] = []"
  by (simp_all add: responses_def accepted_def)

lemmas trace_simps = responses_Cons responses_Nil accepted_Cons accepted_Nil responses_append
  accepted_append responses_banner accepted_banner

lemma responses_startup:
  "responses (preamble port use_ssl) = []"
  "responses [Socket_create, Socket_bind bind_address port, Socket_listen] = []"
  "accepted (preamble port use_ssl) = []"
  "accepted [Socket_create, Socket_bind bind_address port, Socket_listen] = []"
  by (simp_all add: responses_def accepted_def preamble_def)

lemma no_usage_in_preamble: "Usage_message \<notin> set (preamble port use_ssl)"
  by (simp add: preamble_def)

lemma main_example_started:
  "main example_os [''8080''] [] =
     (preamble 8080 False @ [Socket_create, Socket_bind ''0.0.0.0'' 8080, Socket_listen]
        @ banner ''HTTP'' ''0.0.0.0'' 8080 ''srv'' ''192.168.1.10'', None)"
  using main_Parsed[OF parse_8080, of "[]"]
  by (simp add: create_test_server_def TCPServer_def example_os_def example_bind_def Let_def
      serve_forever_Nil)

lemma main_example_running: "snd (main example_os [''8080''] []) = None"
  by (simp add: main_example_started)

lemma main_status_Connection:
  "snd (main sys0 argv (Connection sys c # evs)) = snd (main sys0 argv evs)"
proof (cases "parse_args sys0 argv")
  case (Parsed port use_ssl)
  obtain r a where C: "create_test_server port use_ssl sys0 [] = (r, a)"
    by (cases "create_test_server port use_ssl sys0 []")
  have s: "fst (serve_forever port use_ssl (Connection sys c # evs)) = fst (serve_forever port use_ssl evs)"
    by (simp add: serve_forever_Connection)
  have st: "snd (main sys0 argv evs') =
      (case r of Some (Inl e) \<Rightarrow> Some 1 | Some (Inr u) \<Rightarrow> Some 0
       | None \<Rightarrow> (case fst (serve_forever port use_ssl evs') of None \<Rightarrow> None
            | Some e \<Rightarrow> if e = KeyboardInterrupt then Some 0 else Some 1))" for evs'
    using main_Parsed[OF Parsed, of evs'] create_test_server_split[of port use_ssl sys0 evs'] C
    by (cases "serve_forever port use_ssl evs'")
       (auto split: option.splits sum.splits)
  show ?thesis by (simp only: st s)
next
  case Usage_error
  then show ?thesis by (simp add: main_def)
next
  case Help_exit
  then show ?thesis by (simp add: main_def)
qed

lemma create_test_server_overflow:
  "port < 0 \<or> 65535 < port \<Longrightarrow>
   create_test_server port use_ssl sys evs = (Some (Inl OverflowError), [Socket_create, Socket_close])"
  using create_test_server_bind_fails[of sys port OverflowError use_ssl evs]
  by (simp add: TCPServer_def)

lemma parse_0: "parse_args example_os [''0''] = Parsed 0 False"
  by (simp add: argparse_defs example_os_def)

lemma main_port_0_started:
  "main example_os [''0''] [] =
     (preamble 0 False @ [Socket_create, Socket_bind ''0.0.0.0'' 0, Socket_listen]
        @ banner ''HTTP'' ''0.0.0.0'' 0 ''srv'' ''192.168.1.10'', None)"
  using main_Parsed[OF parse_0, of "[]"]
  by (simp add: create_test_server_def TCPServer_def example_os_def example_bind_def Let_def
      serve_forever_Nil)

lemma not_separator: "parse_optional tok = Positional \<Longrightarrow> tok \<noteq> ''--''"
  by (auto simp: argparse_defs)

lemma take_optional_ssl: "take_optional ''--ssl'' Ssl None = None"
  by (simp add: take_optional_def)

lemma accepted_interrupted_handler: "accepted (interrupted_handler evs) = []"
proof (induction evs)
  case Nil
  then show ?case by (simp add: accepted_def)
next
  case (Cons ev evs)
  then show ?case by (cases ev) (simp_all add: accepted_def)
qed

lemma responses_interrupted_handler: "responses (interrupted_handler evs) = []"
proof (induction evs)
  case Nil
  then show ?case by (simp add: responses_def)
next
  case (Cons ev evs)
  then show ?case by (cases ev) (simp_all add: responses_def)
qed

lemma responses_handle_request_noblock:
  "responses (snd (handle_request_noblock port use_ssl sys (Accepted addr (Sends raw hdrs))))
     = [wfile (snd (handle_one_request sys raw hdrs
                      (new_handler \<lparr>cell_port = port, cell_use_ssl = use_ssl\<rparr> addr)))]"
proof -
  let ?h = "handle_one_request sys raw hdrs (new_handler \<lparr>cell_port = port, cell_use_ssl = use_ssl\<rparr> addr)"
  obtain r self where h: "?h = (r, self)" by (cases ?h)
  have l: "responses (map Stderr_log ls) = []" for ls
    by (induction ls) (simp_all add: responses_def)
  show ?thesis
    using h by (cases r) (simp_all add: handle_request_noblock_def responses_def l[unfolded responses_def])
qed

section \<open>The response to a GET request\<close>

text \<open>
  C1, as amended. For every GET request that the framework hands to \<open>do_GET\<close> with a
  request version other than HTTP/0.9 (a request line of at most 65536 bytes that
  \<open>parse_request\<close> accepts with the command \<open>GET\<close>, on any path and from any peer), and
  for which the host name resolves at that moment: the handler returns normally and the
  response has status 200, a \<open>Content-Type\<close> header with value
  \<open>text/html; charset=utf-8\<close>, and a body that contains the port, the host name, the
  local IP, the protocol label (\<open>HTTPS\<close> if the server was started with TLS, \<open>HTTP\<close>
  otherwise) and the peer's IP.
\<close>

theorem get_response_when_resolved:
  assumes "parse_request sys raw hdrs (new_handler vars addr) = (True, self)"
    and "command self = Some ''GET''"
    and "request_version self \<noteq> ''HTTP/0.9''"
    and "length raw \<le> 65536"
    and "gethostbyname sys (gethostname sys) = Some local_ip"
  shows "\<exists>self' body.
      handle_one_request sys raw hdrs (new_handler vars addr) = (Inr (), self')
    \<and> response_status (wfile self') = Some 200
    \<and> header_value ''Content-Type'' (wfile self') = Some ''text/html; charset=utf-8''
    \<and> response_body (wfile self') = Some body
    \<and> sublist (str_int (cell_port vars)) body
    \<and> sublist (gethostname sys) body
    \<and> sublist local_ip body
    \<and> sublist (if cell_use_ssl vars then ''HTTPS'' else ''HTTP'') body
    \<and> sublist (fst addr) body"
proof -
  note p = parse_request_True[OF assms(1)]
  have b: "headers_buffer self = []" and w: "wfile self = []"
    and n: "nonlocals self = vars" and a: "client_address self = addr"
    using p by (simp_all add: new_handler_def)
  note g = do_GET_resolved(1,2)[OF assms(5) assms(3) b]
  have "handle_one_request sys raw hdrs (new_handler vars addr) = do_GET sys self"
    by (rule handle_one_request_GET[OF assms(1,2,4)])
  then have "handle_one_request sys raw hdrs (new_handler vars addr) = (Inr (), snd (do_GET sys self))"
    using g(1) by (simp add: prod_eq_iff)
  then show ?thesis
    using g(2) w n a
    by (simp add: response_head_status response_head_content_type response_head_body message_fields)
qed

theorem get_response_when_resolved_witness:
  "parse_request example_os get_line Headers_ok
       (new_handler \<lparr>cell_port = 8080, cell_use_ssl = False\<rparr> (''10.0.0.5'', 51000))
     = (True, (new_handler \<lparr>cell_port = 8080, cell_use_ssl = False\<rparr> (''10.0.0.5'', 51000))
                \<lparr>command := Some ''GET'', path := ''/anything'',
                 request_version := ''HTTP/1.1'', requestline := ''GET /anything HTTP/1.1''\<rparr>)
   \<and> length get_line \<le> 65536
   \<and> gethostbyname example_os (gethostname example_os) = Some ''192.168.1.10''
   \<and> (\<exists>self' body.
      handle_one_request example_os get_line Headers_ok
          (new_handler \<lparr>cell_port = 8080, cell_use_ssl = False\<rparr> (''10.0.0.5'', 51000)) = (Inr (), self')
    \<and> response_status (wfile self') = Some 200
    \<and> header_value ''Content-Type'' (wfile self') = Some ''text/html; charset=utf-8''
    \<and> response_body (wfile self') = Some body
    \<and> sublist ''8080'' body
    \<and> sublist ''srv'' body
    \<and> sublist ''192.168.1.10'' body
    \<and> sublist ''HTTP'' body
    \<and> sublist ''10.0.0.5'' body)"
proof -
  have r: "gethostbyname example_os (gethostname example_os) = Some ''192.168.1.10''"
    by (simp add: example_os_def)
  have n: "gethostname example_os = ''srv''" by (simp add: example_os_def)
  have c: "command ((new_handler \<lparr>cell_port = 8080, cell_use_ssl = False\<rparr> (''10.0.0.5'', 51000))
                \<lparr>command := Some ''GET'', path := ''/anything'',
                 request_version := ''HTTP/1.1'', requestline := ''GET /anything HTTP/1.1''\<rparr>) = Some ''GET''"
    by simp
  have v: "request_version ((new_handler \<lparr>cell_port = 8080, cell_use_ssl = False\<rparr> (''10.0.0.5'', 51000))
                \<lparr>command := Some ''GET'', path := ''/anything'',
                 request_version := ''HTTP/1.1'', requestline := ''GET /anything HTTP/1.1''\<rparr>) \<noteq> ''HTTP/0.9''"
    by simp
  from get_response_when_resolved[OF parse_get_line c v line_lengths(1) r]
  have "\<exists>self' body.
      handle_one_request example_os get_line Headers_ok
          (new_handler \<lparr>cell_port = 8080, cell_use_ssl = False\<rparr> (''10.0.0.5'', 51000)) = (Inr (), self')
    \<and> response_status (wfile self') = Some 200
    \<and> header_value ''Content-Type'' (wfile self') = Some ''text/html; charset=utf-8''
    \<and> response_body (wfile self') = Some body
    \<and> sublist ''8080'' body
    \<and> sublist ''srv'' body
    \<and> sublist ''192.168.1.10'' body
    \<and> sublist ''HTTP'' body
    \<and> sublist ''10.0.0.5'' body"
    by (simp add: str_int_8080 n)
  with parse_get_line line_lengths(1) r show ?thesis by blast
qed

text \<open>
  C1 as stated fails while the server is listening: it was started on port 8080 when the
  host name resolved, and a GET request arrives at a moment when the name does not
  resolve. The server stays up, but the response is the status line and the headers
  only, with no body.
\<close>

theorem unresolved_request_counterexample:
  "snd (main example_os [''8080''] [Connection resolver_down browser]) = None
   \<and> responses (fst (main example_os [''8080''] [Connection resolver_down browser]))
       = [[Status_line 200, Header ''Server'' ''SimpleHTTP/0.6 Python/3.11.4'',
           Header ''Date'' ''Mon, 01 Jan 2024 00:00:00 GMT'',
           Header ''Content-type'' ''text/html; charset=utf-8'', End_of_headers]]
   \<and> response_body [Status_line 200, Header ''Server'' ''SimpleHTTP/0.6 Python/3.11.4'',
           Header ''Date'' ''Mon, 01 Jan 2024 00:00:00 GMT'',
           Header ''Content-type'' ''text/html; charset=utf-8'', End_of_headers] = None"
proof -
  have s: "serve_forever 8080 False [Connection resolver_down browser]
         = (None, snd (handle_request_noblock 8080 False resolver_down browser))"
    by (simp add: serve_forever_simps)
  have m: "main example_os [''8080''] [Connection resolver_down browser]
         = (fst (main example_os [''8080''] [])
              @ snd (handle_request_noblock 8080 False resolver_down browser), None)"
    using main_split[OF main_example_running parse_8080, of "[Connection resolver_down browser]"] s
    by simp
  have h: "response_head resolver_down = [Status_line 200, Header ''Server'' ''SimpleHTTP/0.6 Python/3.11.4'',
           Header ''Date'' ''Mon, 01 Jan 2024 00:00:00 GMT'',
           Header ''Content-type'' ''text/html; charset=utf-8'', End_of_headers]"
    by (simp add: response_head_def resolver_down_def example_os_def)
  have "responses (fst (main example_os [''8080''] [])) = []"
    by (simp add: main_example_started trace_simps responses_startup)
  moreover have "responses (snd (handle_request_noblock 8080 False resolver_down browser))
      = [response_head resolver_down]"
    by (simp add: handle_browser_down trace_simps)
  ultimately show ?thesis
    using m h response_head_no_body[of resolver_down] by (simp add: trace_simps)
qed

text \<open>
  C2, as amended. Started without TLS, the server answers a GET request that the
  framework hands to \<open>do_GET\<close>, when the host name resolves, with a body that contains
  the port digits (\<open>8080\<close> for port 8080) and \<open>HTTP\<close>; the body does not contain
  \<open>HTTPS\<close> provided none of the host name, the local IP and the peer's IP contains it.
\<close>

theorem plain_http_page_without_https:
  assumes "parse_request sys raw hdrs (new_handler vars addr) = (True, self)"
    and "command self = Some ''GET''"
    and "length raw \<le> 65536"
    and "\<not> cell_use_ssl vars"
    and "gethostbyname sys (gethostname sys) = Some local_ip"
    and "\<not> sublist ''HTTPS'' (gethostname sys)"
    and "\<not> sublist ''HTTPS'' local_ip"
    and "\<not> sublist ''HTTPS'' (fst addr)"
  shows "\<exists>self' body.
      handle_one_request sys raw hdrs (new_handler vars addr) = (Inr (), self')
    \<and> response_body (wfile self') = Some body
    \<and> sublist (str_int (cell_port vars)) body
    \<and> sublist ''HTTP'' body
    \<and> \<not> sublist ''HTTPS'' body"
proof -
  note p = parse_request_True[OF assms(1)]
  have b: "headers_buffer self = []" and w: "wfile self = []"
    and n: "nonlocals self = vars" and a: "client_address self = addr"
    using p by (simp_all add: new_handler_def)
  note g = do_GET_body[OF assms(5) b w]
  have "handle_one_request sys raw hdrs (new_handler vars addr) = do_GET sys self"
    by (rule handle_one_request_GET[OF assms(1,2,3)])
  then have "handle_one_request sys raw hdrs (new_handler vars addr) = (Inr (), snd (do_GET sys self))"
    using g by (simp add: prod_eq_iff)
  then show ?thesis
    using g n a assms(4)
      message_fields(1)[of "cell_port vars" False "gethostname sys" local_ip "fst addr"]
      message_fields(4)[of False "cell_port vars" "gethostname sys" local_ip "fst addr"]
      message_no_HTTPS[OF assms(6,7,8), of "cell_port vars"]
    by simp
qed

theorem plain_http_page_without_https_witness:
  "parse_request example_os simple_get_line Headers_ok
       (new_handler \<lparr>cell_port = 8080, cell_use_ssl = False\<rparr> (''10.0.0.5'', 51000))
     = (True, (new_handler \<lparr>cell_port = 8080, cell_use_ssl = False\<rparr> (''10.0.0.5'', 51000))
                \<lparr>command := Some ''GET'', path := ''/anything'',
                 request_version := ''HTTP/0.9'', requestline := ''GET /anything''\<rparr>)
   \<and> length simple_get_line \<le> 65536
   \<and> \<not> cell_use_ssl \<lparr>cell_port = 8080, cell_use_ssl = False\<rparr>
   \<and> gethostbyname example_os (gethostname example_os) = Some ''192.168.1.10''
   \<and> \<not> sublist ''HTTPS'' (gethostname example_os)
   \<and> \<not> sublist ''HTTPS'' ''192.168.1.10''
   \<and> \<not> sublist ''HTTPS'' (fst (''10.0.0.5'', 51000 :: nat))
   \<and> (\<exists>self' body.
      handle_one_request example_os simple_get_line Headers_ok
          (new_handler \<lparr>cell_port = 8080, cell_use_ssl = False\<rparr> (''10.0.0.5'', 51000)) = (Inr (), self')
    \<and> response_body (wfile self') = Some body
    \<and> sublist ''8080'' body
    \<and> sublist ''HTTP'' body
    \<and> \<not> sublist ''HTTPS'' body)"
proof -
  have r: "gethostbyname example_os (gethostname example_os) = Some ''192.168.1.10''"
    by (simp add: example_os_def)
  have h: "\<not> sublist ''HTTPS'' (gethostname example_os)"
    by (simp add: example_os_def sublist_code)
  have i: "\<not> sublist ''HTTPS'' ''192.168.1.10''" by (simp add: sublist_code)
  have c: "\<not> sublist ''HTTPS'' (fst (''10.0.0.5'', 51000 :: nat))" by (simp add: sublist_code)
  have u: "\<not> cell_use_ssl \<lparr>cell_port = 8080, cell_use_ssl = False\<rparr>" by simp
  have g: "command ((new_handler \<lparr>cell_port = 8080, cell_use_ssl = False\<rparr> (''10.0.0.5'', 51000))
                \<lparr>command := Some ''GET'', path := ''/anything'',
                 request_version := ''HTTP/0.9'', requestline := ''GET /anything''\<rparr>) = Some ''GET''"
    by simp
  from plain_http_page_without_https[OF parse_simple_get_line g line_lengths(2) u r h i c]
  have "\<exists>self' body.
      handle_one_request example_os simple_get_line Headers_ok
          (new_handler \<lparr>cell_port = 8080, cell_use_ssl = False\<rparr> (''10.0.0.5'', 51000)) = (Inr (), self')
    \<and> response_body (wfile self') = Some body
    \<and> sublist ''8080'' body
    \<and> sublist ''HTTP'' body
    \<and> \<not> sublist ''HTTPS'' body"
    by (simp add: str_int_8080)
  with parse_simple_get_line line_lengths(2) u r h i c show ?thesis by blast
qed

text \<open>
  C2 as stated fails on a host whose name contains \<open>HTTPS\<close>: the page of a server
  started without TLS on port 8080 repeats the host name, and with it \<open>HTTPS\<close>.
\<close>

theorem https_in_plain_page_counterexample:
  "response_body (wfile (snd (handle_one_request https_named get_line Headers_ok
       (new_handler \<lparr>cell_port = 8080, cell_use_ssl = False\<rparr> (''10.0.0.5'', 51000)))))
     = Some (message 8080 False ''HTTPS-GW'' ''192.168.1.10'' ''10.0.0.5'')
   \<and> sublist ''HTTPS'' (message 8080 False ''HTTPS-GW'' ''192.168.1.10'' ''10.0.0.5'')"
proof -
  have r: "gethostbyname https_named (gethostname https_named) = Some ''192.168.1.10''"
    by (simp add: https_named_def example_os_def)
  have n: "gethostname https_named = ''HTTPS-GW''" by (simp add: https_named_def)
  note b = browser_handler
  have "message 8080 False ''HTTPS-GW'' ''192.168.1.10'' ''10.0.0.5''
      = (page_0 @ str_int 8080 @ page_1) @ ''HTTPS''
        @ (''-GW'' @ page_2 @ ''192.168.1.10'' @ page_3 @ str_int 8080 @ page_4 @ ''HTTP'' @ page_5
           @ ''10.0.0.5'' @ page_6)"
    by (simp add: message_def)
  then have s: "sublist ''HTTPS'' (message 8080 False ''HTTPS-GW'' ''192.168.1.10'' ''10.0.0.5'')"
    by (simp only: sublist_appendI)
  show ?thesis
    using do_GET_body[OF r b(3) b(4)] s by (simp add: b n)
qed

text \<open>
  C10, as amended. For a GET request whose version is not HTTP/0.9, the status line and
  the headers (among them \<open>Content-type\<close>) are the first thing written to the
  connection, whatever name resolution answers afterwards; and when
  \<open>socket.gethostbyname\<close> raises, the handler ends with that exception after exactly the
  status 200 and the headers were sent, and no body.
\<close>

theorem headers_precede_resolution:
  assumes "parse_request sys raw hdrs (new_handler vars addr) = (True, self)"
    and "command self = Some ''GET''"
    and "request_version self \<noteq> ''HTTP/0.9''"
    and "length raw \<le> 65536"
  shows "prefix (response_head sys) (wfile (snd (handle_one_request sys raw hdrs (new_handler vars addr))))
   \<and> (gethostbyname sys (gethostname sys) = None \<longrightarrow>
        fst (handle_one_request sys raw hdrs (new_handler vars addr)) = Inl gaierror
      \<and> wfile (snd (handle_one_request sys raw hdrs (new_handler vars addr))) = response_head sys
      \<and> response_status (response_head sys) = Some 200
      \<and> header_value ''Content-type'' (response_head sys) = Some ''text/html; charset=utf-8''
      \<and> response_body (response_head sys) = None)"
proof -
  note p = parse_request_True[OF assms(1)]
  have b: "headers_buffer self = []" and w: "wfile self = []"
    using p by (simp_all add: new_handler_def)
  have h: "handle_one_request sys raw hdrs (new_handler vars addr) = do_GET sys self"
    by (rule handle_one_request_GET[OF assms(1,2,4)])
  show ?thesis
  proof (cases "gethostbyname sys (gethostname sys)")
    case None
    show ?thesis
      using do_GET_unresolved(1,2)[OF None assms(3) b] w None
        response_head_status[of sys "[]"] response_head_no_body[of sys]
      by (simp add: h) (simp add: response_head_def header_value_def response_headers_def ascii_lower_def)
  next
    case (Some ip)
    show ?thesis
      using do_GET_resolved(2)[OF Some assms(3) b] w Some by (simp add: h)
  qed
qed

theorem headers_precede_resolution_witness:
  "parse_request resolver_down get_line Headers_ok
       (new_handler \<lparr>cell_port = 8080, cell_use_ssl = False\<rparr> (''10.0.0.5'', 51000))
     = (True, (new_handler \<lparr>cell_port = 8080, cell_use_ssl = False\<rparr> (''10.0.0.5'', 51000))
                \<lparr>command := Some ''GET'', path := ''/anything'',
                 request_version := ''HTTP/1.1'', requestline := ''GET /anything HTTP/1.1''\<rparr>)
   \<and> length get_line \<le> 65536
   \<and> gethostbyname resolver_down (gethostname resolver_down) = None
   \<and> fst (handle_one_request resolver_down get_line Headers_ok
       (new_handler \<lparr>cell_port = 8080, cell_use_ssl = False\<rparr> (''10.0.0.5'', 51000))) = Inl gaierror
   \<and> wfile (snd (handle_one_request resolver_down get_line Headers_ok
       (new_handler \<lparr>cell_port = 8080, cell_use_ssl = False\<rparr> (''10.0.0.5'', 51000))))
       = response_head resolver_down
   \<and> response_body (response_head resolver_down) = None"
proof -
  have r: "gethostbyname resolver_down (gethostname resolver_down) = None"
    by (simp add: resolver_down_def)
  have c: "command ((new_handler \<lparr>cell_port = 8080, cell_use_ssl = False\<rparr> (''10.0.0.5'', 51000))
                \<lparr>command := Some ''GET'', path := ''/anything'',
                 request_version := ''HTTP/1.1'', requestline := ''GET /anything HTTP/1.1''\<rparr>) = Some ''GET''"
    by simp
  have v: "request_version ((new_handler \<lparr>cell_port = 8080, cell_use_ssl = False\<rparr> (''10.0.0.5'', 51000))
                \<lparr>command := Some ''GET'', path := ''/anything'',
                 request_version := ''HTTP/1.1'', requestline := ''GET /anything HTTP/1.1''\<rparr>) \<noteq> ''HTTP/0.9''"
    by simp
  show ?thesis
    using parse_get_line line_lengths(1) r
      headers_precede_resolution[OF parse_get_line c v line_lengths(1), of resolver_down]
    by blast
qed

text \<open>
  C10 as stated fails for a request line without a version (HTTP/0.9): the framework
  then writes no status line and no headers, so when name resolution raises, the peer
  has been sent nothing at all.
\<close>

theorem simple_request_counterexample:
  "fst (handle_one_request resolver_down simple_get_line Headers_ok
       (new_handler \<lparr>cell_port = 8080, cell_use_ssl = False\<rparr> (''10.0.0.5'', 51000))) = Inl gaierror
   \<and> wfile (snd (handle_one_request resolver_down simple_get_line Headers_ok
       (new_handler \<lparr>cell_port = 8080, cell_use_ssl = False\<rparr> (''10.0.0.5'', 51000)))) = []"
proof -
  have r: "gethostbyname resolver_down (gethostname resolver_down) = None"
    by (simp add: resolver_down_def)
  let ?h = "(new_handler \<lparr>cell_port = 8080, cell_use_ssl = False\<rparr> (''10.0.0.5'', 51000))
                \<lparr>command := Some ''GET'', path := ''/anything'',
                 request_version := ''HTTP/0.9'', requestline := ''GET /anything''\<rparr>"
  have h: "handle_one_request resolver_down simple_get_line Headers_ok
       (new_handler \<lparr>cell_port = 8080, cell_use_ssl = False\<rparr> (''10.0.0.5'', 51000))
      = do_GET resolver_down ?h"
    by (rule handle_one_request_GET[OF parse_simple_get_line _ line_lengths(2)]) simp
  have v: "request_version ?h = ''HTTP/0.9''" by simp
  have w: "wfile ?h = []" by (simp add: new_handler_def)
  show ?thesis
    using do_GET_simple_request(1)[OF v r] w by (simp only: h)
qed

section \<open>Failures at start-up\<close>

text \<open>
  C5. When the command line parses and the operating system refuses the bind (the address
  is in use, or the port is privileged), the exception leaves \<open>create_test_server\<close>
  uncaught: the process prints a traceback and exits with status 1, whatever arrives
  later; no connection is accepted and nothing is served.
\<close>

theorem bind_failure_is_fatal:
  assumes "parse_args sys argv = Parsed port use_ssl"
    and "0 \<le> port" and "port \<le> 65535" and "bind_answer sys port \<noteq> Bound"
  shows "\<exists>e. (e = OSError_address_in_use \<or> e = PermissionError)
     \<and> main sys argv evs = (preamble port use_ssl @ [Socket_create, Socket_close, Traceback e], Some 1)
     \<and> accepted (fst (main sys argv evs)) = []
     \<and> responses (fst (main sys argv evs)) = []"
proof -
  from TCPServer_refused[OF assms(2,3,4), of "''0.0.0.0''"] obtain e
    where e: "e = OSError_address_in_use \<or> e = PermissionError"
      and T: "TCPServer sys ''0.0.0.0'' port = (Inl e, [Socket_create, Socket_close])" by blast
  from T have "create_test_server port use_ssl sys evs = (Some (Inl e), [Socket_create, Socket_close])"
    using create_test_server_bind_fails[of sys port e use_ssl evs] by simp
  then have m: "main sys argv evs = (preamble port use_ssl @ [Socket_create, Socket_close, Traceback e], Some 1)"
    using main_Parsed[OF assms(1), of evs] by simp
  have "accepted (preamble port use_ssl @ [Socket_create, Socket_close, Traceback e]) = []"
    "responses (preamble port use_ssl @ [Socket_create, Socket_close, Traceback e]) = []"
    by (simp_all add: accepted_preamble responses_preamble) (simp_all add: accepted_def responses_def)
  with e m show ?thesis by auto
qed

theorem bind_failure_is_fatal_witness:
  "parse_args example_os [''8000''] = Parsed 8000 False
   \<and> (0::int) \<le> 8000 \<and> (8000::int) \<le> 65535 \<and> bind_answer example_os 8000 \<noteq> Bound
   \<and> (\<exists>e. (e = OSError_address_in_use \<or> e = PermissionError)
     \<and> main example_os [''8000''] [Connection example_os browser]
         = (preamble 8000 False @ [Socket_create, Socket_close, Traceback e], Some 1)
     \<and> accepted (fst (main example_os [''8000''] [Connection example_os browser])) = []
     \<and> responses (fst (main example_os [''8000''] [Connection example_os browser])) = [])"
proof -
  have p: "parse_args example_os [''8000''] = Parsed 8000 False"
    by (simp add: argparse_defs example_os_def)
  have b: "bind_answer example_os 8000 \<noteq> Bound"
    by (simp add: example_os_def example_bind_def)
  have l: "(0::int) \<le> 8000" and u: "(8000::int) \<le> 65535" by simp_all
  show ?thesis
    using p b bind_failure_is_fatal[OF p l u b, of "[Connection example_os browser]"] by simp
qed

text \<open>
  C3. Started with \<open>--ssl\<close> where \<open>key.pem\<close> is missing, with the bind granted:
  \<open>ssl.wrap_socket\<close> raises, nothing catches it, and the process exits with status 1 and
  a traceback of that exception. At that point the socket is bound and listening but
  not wrapped; the program never calls \<open>accept\<close> on it, so no connection is accepted
  and no plaintext is served, whatever arrives.
\<close>

theorem missing_key_is_fatal:
  assumes "parse_args sys argv = Parsed port True"
    and "fst (TCPServer sys ''0.0.0.0'' port) = Inr ()"
    and "files sys ''key.pem'' = Missing"
  shows "\<exists>e. (e = FileNotFoundError \<or> e = PermissionError \<or> e = SSLError)
     \<and> wrap_socket sys ''key.pem'' ''cert.pem'' = (Inl e, [])
     \<and> main sys argv evs =
         (preamble port True @ [Socket_create, Socket_bind ''0.0.0.0'' port, Socket_listen, Traceback e],
          Some 1)
     \<and> accepted (fst (main sys argv evs)) = []
     \<and> responses (fst (main sys argv evs)) = []"
proof -
  from wrap_socket_key_missing[OF assms(3), of "''cert.pem''"] obtain e
    where E: "e = FileNotFoundError \<or> e = PermissionError \<or> e = SSLError"
      and W: "wrap_socket sys ''key.pem'' ''cert.pem'' = (Inl e, [])" by blast
  have "create_test_server port True sys evs =
      (Some (Inl e), [Socket_create, Socket_bind ''0.0.0.0'' port, Socket_listen])"
    using create_test_server_wrap_fails[OF assms(2), of e evs] W TCPServer_ok[OF assms(2)] by simp
  then have m: "main sys argv evs =
      (preamble port True @ [Socket_create, Socket_bind ''0.0.0.0'' port, Socket_listen, Traceback e], Some 1)"
    using main_Parsed[OF assms(1), of evs] by simp
  have "accepted (preamble port True @ [Socket_create, Socket_bind ''0.0.0.0'' port, Socket_listen, Traceback e]) = []"
    "responses (preamble port True @ [Socket_create, Socket_bind ''0.0.0.0'' port, Socket_listen, Traceback e]) = []"
    by (simp_all add: accepted_preamble responses_preamble) (simp_all add: accepted_def responses_def)
  with E W m show ?thesis by auto
qed

theorem missing_key_is_fatal_witness:
  "parse_args key_missing [''8443'', ''--ssl''] = Parsed 8443 True
   \<and> fst (TCPServer key_missing ''0.0.0.0'' 8443) = Inr ()
   \<and> files key_missing ''key.pem'' = Missing
   \<and> (\<exists>e. (e = FileNotFoundError \<or> e = PermissionError \<or> e = SSLError)
     \<and> wrap_socket key_missing ''key.pem'' ''cert.pem'' = (Inl e, [])
     \<and> main key_missing [''8443'', ''--ssl''] [Connection key_missing browser] =
         (preamble 8443 True @ [Socket_create, Socket_bind ''0.0.0.0'' 8443, Socket_listen, Traceback e],
          Some 1)
     \<and> accepted (fst (main key_missing [''8443'', ''--ssl''] [Connection key_missing browser])) = []
     \<and> responses (fst (main key_missing [''8443'', ''--ssl''] [Connection key_missing browser])) = [])"
proof -
  have t: "fst (TCPServer key_missing ''0.0.0.0'' 8443) = Inr ()"
    by (simp add: TCPServer_def key_missing_def example_os_def example_bind_def)
  have k: "files key_missing ''key.pem'' = Missing"
    by (simp add: key_missing_def cert_only_def)
  show ?thesis
    using parse_8443 t k missing_key_is_fatal[OF parse_8443 t k, of "[Connection key_missing browser]"]
    by simp
qed

section \<open>Interrupt\<close>

text \<open>
  C6. While the server is running (start-up has succeeded), an interrupt that arrives
  after any number of connections ends \<open>serve_forever\<close>: a connection whose peer is
  still silent is shut down, the program prints the shutdown message (the bytes of the
  source's \<open>print\<close>: a newline, a four-byte symbol, a space and eighteen bytes of text),
  closes the listening socket and exits with status 0. Nothing that arrives after the
  interrupt is accepted: the connections accepted are those accepted before it.
\<close>

theorem interrupt_stops_server:
  assumes "snd (main sys argv []) = None" and "Interrupt \<notin> set evs1"
  shows "main sys argv (evs1 @ Interrupt # evs2) =
           (fst (main sys argv evs1) @ interrupted_handler evs1
              @ [Stdout ([CHR 0x0A, CHR 0xF0, CHR 0x9F, CHR 0x9B, CHR 0x91] @ '' ''
                         @ [CHR 0xE6, CHR 0x9C, CHR 0x8D, CHR 0xE5, CHR 0x8A, CHR 0xA1,
                            CHR 0xE5, CHR 0x99, CHR 0xA8, CHR 0xE5, CHR 0xB7, CHR 0xB2,
                            CHR 0xE5, CHR 0x81, CHR 0x9C, CHR 0xE6, CHR 0xAD, CHR 0xA2]),
                 Socket_close],
            Some 0)
       \<and> accepted (fst (main sys argv (evs1 @ Interrupt # evs2))) = accepted (fst (main sys argv evs1))"
proof -
  from main_running_Parsed[OF assms(1)] obtain port use_ssl
    where P: "parse_args sys argv = Parsed port use_ssl" by blast
  have 1: "main sys argv (evs1 @ Interrupt # evs2) =
      (fst (main sys argv []) @ snd (serve_forever port use_ssl evs1) @ interrupted_handler evs1
         @ [Stdout stopped, Socket_close], Some 0)"
    using main_split[OF assms(1) P, of "evs1 @ Interrupt # evs2"]
    by (simp add: serve_forever_until_Interrupt[OF assms(2)])
  have 2: "main sys argv evs1 = (fst (main sys argv []) @ snd (serve_forever port use_ssl evs1), None)"
    using main_split[OF assms(1) P, of evs1] serve_forever_running[OF assms(2), of port use_ssl]
    by (cases "serve_forever port use_ssl evs1") simp
  have 3: "accepted (xs @ interrupted_handler evs1 @ [Stdout s, Socket_close]) = accepted xs" for xs s
    using accepted_interrupted_handler[of evs1] by (simp add: accepted_def)
  from 1 2 have "main sys argv (evs1 @ Interrupt # evs2) =
      (fst (main sys argv evs1) @ interrupted_handler evs1 @ [Stdout stopped, Socket_close], Some 0)"
    by simp
  then show ?thesis using 3 by (simp add: stopped_def)
qed

theorem interrupt_stops_server_witness:
  "snd (main example_os [''8080''] []) = None
   \<and> Interrupt \<notin> set [Connection example_os browser, Stalls_before_request (''10.0.0.7'', 52000)]
   \<and> main example_os [''8080'']
        ([Connection example_os browser, Stalls_before_request (''10.0.0.7'', 52000)]
           @ Interrupt # [Connection example_os browser]) =
       (fst (main example_os [''8080''] [Connection example_os browser, Stalls_before_request (''10.0.0.7'', 52000)])
          @ [Close_connection]
          @ [Stdout ([CHR 0x0A, CHR 0xF0, CHR 0x9F, CHR 0x9B, CHR 0x91] @ '' ''
                     @ [CHR 0xE6, CHR 0x9C, CHR 0x8D, CHR 0xE5, CHR 0x8A, CHR 0xA1,
                        CHR 0xE5, CHR 0x99, CHR 0xA8, CHR 0xE5, CHR 0xB7, CHR 0xB2,
                        CHR 0xE5, CHR 0x81, CHR 0x9C, CHR 0xE6, CHR 0xAD, CHR 0xA2]),
             Socket_close],
        Some 0)
   \<and> accepted (fst (main example_os [''8080'']
        ([Connection example_os browser, Stalls_before_request (''10.0.0.7'', 52000)]
           @ Interrupt # [Connection example_os browser])))
       = accepted (fst (main example_os [''8080'']
           [Connection example_os browser, Stalls_before_request (''10.0.0.7'', 52000)]))"
proof -
  have i: "Interrupt \<notin> set [Connection example_os browser, Stalls_before_request (''10.0.0.7'', 52000)]"
    by simp
  have h: "interrupted_handler [Connection example_os browser, Stalls_before_request (''10.0.0.7'', 52000)]
      = [Close_connection]"
    by simp
  note t = interrupt_stops_server[OF main_example_running i, of "[Connection example_os browser]",
      unfolded h]
  from main_example_running i t show ?thesis by blast
qed

section \<open>Connections\<close>

text \<open>
  C7. No error of a single connection ends the server. A failed \<open>accept\<close> (on a TLS
  socket: a failed handshake) is dropped; a peer that closes or resets before sending a
  request has its connection closed, the reset with a traceback on the error stream. For
  every connection, whatever happens in it, no exception leaves
  \<open>_handle_request_noblock\<close>, the connection (if one was established) is closed at
  the end, the loop goes on with the events that follow exactly as
  if they had come first, and the exit status of the process is what it would have been
  without that connection.
\<close>

theorem connection_errors_not_fatal:
  "handle_request_noblock port use_ssl sys Accept_fails = (None, [Accept_failed])
   \<and> handle_request_noblock port use_ssl sys (Accepted addr Closes_silently)
       = (None, [Accept addr, Close_connection])
   \<and> handle_request_noblock port use_ssl sys (Accepted addr Resets)
       = (None, [Accept addr, Handler_traceback ConnectionResetError, Close_connection])
   \<and> fst (handle_request_noblock port use_ssl sys c) = None
   \<and> (snd (handle_request_noblock port use_ssl sys c) = [Accept_failed]
      \<or> (\<exists>peer acts. snd (handle_request_noblock port use_ssl sys c)
                          = Accept peer # acts @ [Close_connection]))
   \<and> serve_forever port use_ssl (Connection sys c # evs) =
       (fst (serve_forever port use_ssl evs),
        snd (handle_request_noblock port use_ssl sys c) @ snd (serve_forever port use_ssl evs))
   \<and> snd (main sys0 argv (Connection sys c # evs)) = snd (main sys0 argv evs)"
  using handle_request_noblock_swallows[of port use_ssl sys c]
    handle_request_noblock_closes[of port use_ssl sys c]
    serve_forever_Connection[of port use_ssl sys c evs]
    main_status_Connection[of sys0 argv sys c evs]
  by (simp add: handle_request_noblock_simps)

theorem connection_errors_not_fatal_witness:
  "snd (main example_os [''8080'']
      [Connection example_os Accept_fails,
       Connection example_os (Accepted (''10.0.0.9'', 40000) Resets),
       Connection resolver_down browser]) = None
   \<and> accepted (fst (main example_os [''8080'']
      [Connection example_os Accept_fails,
       Connection example_os (Accepted (''10.0.0.9'', 40000) Resets),
       Connection resolver_down browser])) = [(''10.0.0.9'', 40000), (''10.0.0.5'', 51000)]"
proof -
  let ?evs = "[Connection example_os Accept_fails,
       Connection example_os (Accepted (''10.0.0.9'', 40000) Resets),
       Connection resolver_down browser]"
  have 1: "snd (main example_os [''8080''] ?evs)
      = snd (main example_os [''8080''] (tl ?evs))"
    using connection_errors_not_fatal[of 8080 False example_os "(''10.0.0.9'', 40000)" Accept_fails "tl ?evs"
        example_os "[''8080'']"]
    by simp
  have 2: "snd (main example_os [''8080''] (tl ?evs)) = snd (main example_os [''8080''] (tl (tl ?evs)))"
    using connection_errors_not_fatal[of 8080 False example_os "(''10.0.0.9'', 40000)"
        "Accepted (''10.0.0.9'', 40000) Resets" "tl (tl ?evs)" example_os "[''8080'']"]
    by simp
  have 3: "snd (main example_os [''8080''] (tl (tl ?evs))) = snd (main example_os [''8080''] [])"
    using connection_errors_not_fatal[of 8080 False resolver_down "(''10.0.0.9'', 40000)"
        "browser" "[]" example_os "[''8080'']"]
    by simp
  have s: "serve_forever 8080 False ?evs =
      (None, [Accept_failed] @ [Accept (''10.0.0.9'', 40000), Handler_traceback ConnectionResetError, Close_connection]
         @ snd (handle_request_noblock 8080 False resolver_down browser))"
    by (simp add: serve_forever_simps handle_request_noblock_simps)
  have m: "main example_os [''8080''] ?evs
         = (fst (main example_os [''8080''] []) @ snd (serve_forever 8080 False ?evs), None)"
    using main_split[OF main_example_running parse_8080, of ?evs] s
    by simp
  have a: "accepted (fst (main example_os [''8080''] ?evs)) = [(''10.0.0.9'', 40000), (''10.0.0.5'', 51000)]"
    unfolding m s by (simp add: main_example_started trace_simps responses_startup handle_browser_down)
  from 1 2 3 main_example_running a show ?thesis by simp
qed

text \<open>
  C8. No request changes the state that the handlers share. The variables \<open>port\<close> and
  \<open>use_ssl\<close> of \<open>create_test_server\<close> are the only state a handler shares with the
  handlers of other requests: whatever request arrives, \<open>do_GET\<close> and the whole handler
  leave them as they found them, and after any sequence of events they are what they
  were at start-up. Hence, in a sequence of connections, the server does for each
  connection what a server just started with the same port and TLS flag does for that
  connection alone, whatever came before and whatever comes after; and the response to
  a request line is what a fresh handler over the start-up values writes.
\<close>

theorem requests_rendered_independently:
  assumes "list_all is_connection evs1"
  shows "nonlocals (snd (do_GET sys self)) = nonlocals self
   \<and> nonlocals (snd (handle_one_request sys raw hdrs (new_handler vars addr))) = vars
   \<and> snd (handle_request vars sys c) = vars
   \<and> snd (serve vars evs) = vars
   \<and> snd (serve_forever port use_ssl (evs1 @ Connection sys c # evs2))
       = snd (serve_forever port use_ssl evs1)
         @ snd (handle_request_noblock port use_ssl sys c)
         @ snd (serve_forever port use_ssl evs2)
   \<and> responses (snd (handle_request_noblock port use_ssl sys (Accepted addr (Sends raw hdrs))))
       = [wfile (snd (handle_one_request sys raw hdrs
                        (new_handler \<lparr>cell_port = port, cell_use_ssl = use_ssl\<rparr> addr)))]"
proof -
  have 1: "nonlocals (snd (handle_one_request sys raw hdrs (new_handler vars addr))) = vars"
    using nonlocals_handle_one_request[of sys raw hdrs "new_handler vars addr"]
    by (simp add: new_handler_def)
  have 2: "snd (serve_forever port use_ssl (evs1 @ Connection sys c # evs2))
       = snd (serve_forever port use_ssl evs1)
         @ snd (handle_request_noblock port use_ssl sys c)
         @ snd (serve_forever port use_ssl evs2)"
    using serve_forever_connections[OF assms, of port use_ssl "Connection sys c # evs2"]
    by (simp add: serve_forever_Connection)
  from 1 2 nonlocals_do_GET[of sys self] handle_request_vars[of vars sys c] serve_vars[of vars evs]
    responses_handle_request_noblock[of port use_ssl sys addr raw hdrs]
  show ?thesis by blast
qed

theorem requests_rendered_independently_witness:
  "list_all is_connection [Connection resolver_down browser, Connection example_os (Accepted (''10.0.0.6'', 51001) Resets)]
   \<and> snd (serve_forever 8080 False
        ([Connection resolver_down browser, Connection example_os (Accepted (''10.0.0.6'', 51001) Resets)]
           @ Connection example_os browser # [Connection resolver_down browser]))
     = snd (serve_forever 8080 False
              [Connection resolver_down browser, Connection example_os (Accepted (''10.0.0.6'', 51001) Resets)])
       @ [Accept (''10.0.0.5'', 51000),
          Stderr_log (Log_request ''10.0.0.5'' ''GET /anything HTTP/1.1'' 200),
          Sent (response_head example_os @ [Body (message 8080 False ''srv'' ''192.168.1.10'' ''10.0.0.5'')]),
          Close_connection]
       @ snd (serve_forever 8080 False [Connection resolver_down browser])
   \<and> snd (serve \<lparr>cell_port = 8080, cell_use_ssl = False\<rparr>
        ([Connection resolver_down browser, Connection example_os (Accepted (''10.0.0.6'', 51001) Resets)]
           @ Connection example_os browser # [Connection resolver_down browser]))
     = \<lparr>cell_port = 8080, cell_use_ssl = False\<rparr>"
proof -
  have l: "list_all is_connection [Connection resolver_down browser, Connection example_os (Accepted (''10.0.0.6'', 51001) Resets)]"
    by simp
  from requests_rendered_independently[OF l, of example_os "new_handler \<lparr>cell_port = 8080, cell_use_ssl = False\<rparr> (''10.0.0.5'', 51000)"
      get_line Headers_ok "\<lparr>cell_port = 8080, cell_use_ssl = False\<rparr>" "(''10.0.0.5'', 51000)" browser
      "[Connection resolver_down browser, Connection example_os (Accepted (''10.0.0.6'', 51001) Resets)]
           @ Connection example_os browser # [Connection resolver_down browser]"
      8080 False "[Connection resolver_down browser]"]
  have "snd (serve_forever 8080 False
        ([Connection resolver_down browser, Connection example_os (Accepted (''10.0.0.6'', 51001) Resets)]
           @ Connection example_os browser # [Connection resolver_down browser]))
     = snd (serve_forever 8080 False
              [Connection resolver_down browser, Connection example_os (Accepted (''10.0.0.6'', 51001) Resets)])
       @ snd (handle_request_noblock 8080 False example_os browser)
       @ snd (serve_forever 8080 False [Connection resolver_down browser])"
    and "snd (serve \<lparr>cell_port = 8080, cell_use_ssl = False\<rparr>
        ([Connection resolver_down browser, Connection example_os (Accepted (''10.0.0.6'', 51001) Resets)]
           @ Connection example_os browser # [Connection resolver_down browser]))
     = \<lparr>cell_port = 8080, cell_use_ssl = False\<rparr>"
    by blast+
  then show ?thesis using l by (simp only: handle_browser_up snd_conv)
qed

section \<open>Command-line arguments\<close>

text \<open>
  C4, as amended. The parser checks no range. Whenever the command line parses to a port
  below 0 or above 65535, no usage text is printed; \<open>bind\<close> raises \<open>OverflowError\<close>,
  and the process ends with a traceback and exit status 1 without accepting or serving
  anything.
\<close>

theorem out_of_range_port_fails_at_bind:
  assumes "parse_args sys argv = Parsed port use_ssl" and "port < 0 \<or> 65535 < port"
  shows "main sys argv evs =
           (preamble port use_ssl @ [Socket_create, Socket_close, Traceback OverflowError], Some 1)
       \<and> Usage_message \<notin> set (fst (main sys argv evs))
       \<and> accepted (fst (main sys argv evs)) = []
       \<and> responses (fst (main sys argv evs)) = []"
proof -
  have m: "main sys argv evs =
           (preamble port use_ssl @ [Socket_create, Socket_close, Traceback OverflowError], Some 1)"
    using main_Parsed[OF assms(1), of evs] create_test_server_overflow[OF assms(2), of use_ssl sys evs]
    by simp
  show ?thesis unfolding m
    by (simp add: no_usage_in_preamble trace_simps responses_startup)
qed

theorem out_of_range_port_fails_at_bind_witness:
  "parse_args example_os [''70000''] = Parsed 70000 False
   \<and> ((70000::int) < 0 \<or> (65535::int) < 70000)
   \<and> main example_os [''70000''] [Connection example_os browser] =
           (preamble 70000 False @ [Socket_create, Socket_close, Traceback OverflowError], Some 1)
   \<and> Usage_message \<notin> set (fst (main example_os [''70000''] [Connection example_os browser]))
   \<and> accepted (fst (main example_os [''70000''] [Connection example_os browser])) = []
   \<and> responses (fst (main example_os [''70000''] [Connection example_os browser])) = []"
proof -
  have r: "(70000::int) < 0 \<or> (65535::int) < 70000" by simp
  show ?thesis
    using parse_70000 r out_of_range_port_fails_at_bind[OF parse_70000 r, of "[Connection example_os browser]"]
    by blast
qed

text \<open>
  C4 as stated fails: for port 70000 the arguments parse, there is no usage text, and the
  process ends with the traceback of the bind; for port 0, also outside \<open>1..65535\<close>,
  the server starts and accepts a connection.
\<close>

theorem port_range_counterexample:
  "main example_os [''70000''] [] =
     (preamble 70000 False @ [Socket_create, Socket_close, Traceback OverflowError], Some 1)
   \<and> Usage_message \<notin> set (fst (main example_os [''70000''] []))
   \<and> snd (main example_os [''0''] [Connection example_os browser]) = None
   \<and> Usage_message \<notin> set (fst (main example_os [''0''] [Connection example_os browser]))
   \<and> accepted (fst (main example_os [''0''] [Connection example_os browser])) = [(''10.0.0.5'', 51000)]"
proof -
  have r: "(70000::int) < 0 \<or> (65535::int) < 70000" by simp
  have a: "main example_os [''70000''] [] =
     (preamble 70000 False @ [Socket_create, Socket_close, Traceback OverflowError], Some 1)"
    using main_Parsed[OF parse_70000, of "[]"] create_test_server_overflow[OF r, of False example_os "[]"]
    by simp
  have run: "snd (main example_os [''0''] []) = None" by (simp add: main_port_0_started)
  have s: "serve_forever 0 False [Connection example_os browser]
         = (None, snd (handle_request_noblock 0 False example_os browser))"
    by (simp add: serve_forever_simps)
  have m: "main example_os [''0''] [Connection example_os browser]
         = (fst (main example_os [''0''] []) @ snd (handle_request_noblock 0 False example_os browser), None)"
    using main_split[OF run parse_0, of "[Connection example_os browser]"] s by simp
  have u: "Usage_message \<notin> set (fst (main example_os [''0''] [Connection example_os browser]))"
    unfolding m by (simp add: main_port_0_started no_usage_in_preamble handle_browser_up banner_def)
  have c: "accepted (fst (main example_os [''0''] [Connection example_os browser])) = [(''10.0.0.5'', 51000)]"
    unfolding m by (simp add: main_port_0_started trace_simps responses_startup handle_browser_up)
  show ?thesis unfolding a using m u c by (simp add: no_usage_in_preamble)
qed

text \<open>
  C9, as amended. With a port argument that \<open>int\<close> accepts: without a flag the server
  is started in plain HTTP mode; \<open>--ssl\<close>, before or after the port, enables TLS mode;
  \<open>-ssl\<close> is not an option of the parser, and the program ends with the usage message
  and exit status 2.
\<close>

theorem ssl_flag_forms:
  assumes "parse_optional tok = Positional" and "py_int (int_max_str_digits sys) tok = Some port"
  shows "parse_args sys [tok] = Parsed port False
       \<and> parse_args sys [tok, ''--ssl''] = Parsed port True
       \<and> parse_args sys [''--ssl'', tok] = Parsed port True
       \<and> parse_args sys [tok, ''-ssl''] = Usage_error
       \<and> parse_args sys [''-ssl'', tok] = Usage_error
       \<and> main sys [tok, ''-ssl''] evs = ([Usage_message], Some 2)
       \<and> main sys [''-ssl'', tok] evs = ([Usage_message], Some 2)"
proof -
  note n = not_separator[OF assms(1)]
  have 1: "parse_args sys [tok] = Parsed port False"
    using n assms by (simp add: parse_args_def Let_def)
  have 2: "parse_args sys [tok, ''--ssl''] = Parsed port True"
    using n assms by (simp add: parse_args_def Let_def po_ssl take_optional_ssl)
  have 3: "parse_args sys [''--ssl'', tok] = Parsed port True"
    using n assms by (simp add: parse_args_def Let_def po_ssl take_optional_ssl)
  have 4: "parse_args sys [tok, ''-ssl''] = Usage_error"
    using n assms by (simp add: parse_args_def Let_def po_sssl)
  have 5: "parse_args sys [''-ssl'', tok] = Usage_error"
    using n assms by (simp add: parse_args_def Let_def po_sssl)
  from 1 2 3 4 5 show ?thesis by (simp add: main_def)
qed

theorem ssl_flag_forms_witness:
  "parse_optional ''8080'' = Positional
   \<and> py_int (int_max_str_digits example_os) ''8080'' = Some 8080
   \<and> parse_args example_os [''8080''] = Parsed 8080 False
   \<and> parse_args example_os [''8080'', ''--ssl''] = Parsed 8080 True
   \<and> parse_args example_os [''--ssl'', ''8080''] = Parsed 8080 True
   \<and> parse_args example_os [''8080'', ''-ssl''] = Usage_error
   \<and> parse_args example_os [''-ssl'', ''8080''] = Usage_error
   \<and> main example_os [''8080'', ''-ssl''] [] = ([Usage_message], Some 2)
   \<and> main example_os [''-ssl'', ''8080''] [] = ([Usage_message], Some 2)"
proof -
  have p: "py_int (int_max_str_digits example_os) ''8080'' = Some 8080"
    using py_8080 by (simp add: example_os_def)
  show ?thesis
    using po_8080 p ssl_flag_forms[OF po_8080 p, of "[]"] by blast
qed

text \<open>
  C9 as stated fails for the form \<open>-ssl\<close>: it does not enable TLS, the parser rejects it
  and no server starts.
\<close>

theorem single_dash_ssl_counterexample:
  "parse_args example_os [''8080'', ''-ssl''] = Usage_error
   \<and> main example_os [''8080'', ''-ssl''] [Connection example_os browser] = ([Usage_message], Some 2)"
  by (simp add: main_def parse_sssl)

end
